theory Spec2Isabelle
  imports Complex_Main "HOL-Library.Sublist" "HOL-Library.AList"
begin

section \<open>Common Python notions\<close>

text \<open>
  Strings are lists of characters; the prompt templates and file headers of both demos
  are plain ASCII, and so are the strings of every concrete run below. \<open>str.lower\<close> and
  \<open>str.upper\<close> are modelled on the letters \<open>A-Z\<close> and \<open>a-z\<close>, every other character
  being left alone.

  Console output (\<open>print\<close>) is not recorded: no claim is about it. Every other effect of
  the scripts is explicit: the generation service, the clock, the file system, the
  exceptions and the exit code of the process.
\<close>

datatype error =
    Exception string    \<comment> \<open>any other subclass of \<open>Exception\<close>, with its message\<close>
  | KeyError string     \<comment> \<open>a dictionary lookup of a missing key\<close>
  | OSError string      \<comment> \<open>\<open>open\<close> of a path that cannot be written\<close>
  | ValueError string   \<comment> \<open>\<open>int\<close> of a string that is no integer literal\<close>
  | SystemExit nat      \<comment> \<open>\<open>exit(n)\<close>; not a subclass of \<open>Exception\<close>\<close>

text \<open>\<open>except Exception\<close> catches everything but \<open>SystemExit\<close>.\<close>

fun is_Exception :: "error \<Rightarrow> bool" where
  "is_Exception (SystemExit n) = False"
| "is_Exception e = True"


definition nl :: string where
  "nl = [CHR 0x0A]"

definition rule80 :: "char \<Rightarrow> string" where
  "rule80 c = replicate 80 c"

definition upper_char :: "char \<Rightarrow> char" where
  "upper_char c =
     (let n = (of_char c :: nat) in if 97 \<le> n \<and> n \<le> 122 then char_of (n - 32) else c)"

definition lower_char :: "char \<Rightarrow> char" where
  "lower_char c =
     (let n = (of_char c :: nat) in if 65 \<le> n \<and> n \<le> 90 then char_of (n + 32) else c)"

definition upper :: "string \<Rightarrow> string" where
  "upper s = map upper_char s"

definition lower :: "string \<Rightarrow> string" where
  "lower s = map lower_char s"

text \<open>A dictionary keeps its keys in insertion order; \<open>d[k]\<close> raises on a missing key.\<close>

type_synonym dict = "(string \<times> string) list"

definition dict_get :: "dict \<Rightarrow> string \<Rightarrow> error + string" where
  "dict_get d k = (case map_of d k of None \<Rightarrow> Inl (KeyError k) | Some v \<Rightarrow> Inr v)"

definition dict_set :: "dict \<Rightarrow> string \<Rightarrow> string \<Rightarrow> dict" where
  "dict_set d k v = AList.update k v d"

definition keys :: "dict \<Rightarrow> string list" where
  "keys d = map fst d"

subsection \<open>The clock\<close>

record datetime =
  year :: nat
  month :: nat
  day :: nat
  hour :: nat
  minute :: nat
  second :: nat
  microsecond :: nat

definition digit :: "nat \<Rightarrow> char" where
  "digit n = char_of (48 + n mod 10)"

definition d2 :: "nat \<Rightarrow> string" where
  "d2 n = [digit (n div 10), digit n]"

definition d4 :: "nat \<Rightarrow> string" where
  "d4 n = [digit (n div 1000), digit (n div 100), digit (n div 10), digit n]"

definition d6 :: "nat \<Rightarrow> string" where
  "d6 n = [digit (n div 100000), digit (n div 10000), digit (n div 1000),
           digit (n div 100), digit (n div 10), digit n]"

text \<open>A reading of \<open>datetime.now()\<close>: four-digit year, the other fields in their ranges.\<close>

definition valid_datetime :: "datetime \<Rightarrow> bool" where
  "valid_datetime t \<longleftrightarrow>
     1000 \<le> year t \<and> year t \<le> 9999 \<and> 1 \<le> month t \<and> month t \<le> 12 \<and>
     1 \<le> day t \<and> day t \<le> 31 \<and> hour t < 24 \<and> minute t < 60 \<and> second t < 60 \<and>
     microsecond t < 1000000"

text \<open>\<open>strftime('%Y%m%d_%H%M%S')\<close>\<close>

definition strftime_compact :: "datetime \<Rightarrow> string" where
  "strftime_compact t =
     d4 (year t) @ d2 (month t) @ d2 (day t) @ ''_'' @ d2 (hour t) @ d2 (minute t) @ d2 (second t)"

text \<open>\<open>strftime('%Y-%m-%d %H:%M:%S')\<close>\<close>

definition strftime_long :: "datetime \<Rightarrow> string" where
  "strftime_long t =
     d4 (year t) @ ''-'' @ d2 (month t) @ ''-'' @ d2 (day t) @ '' '' @
     d2 (hour t) @ '':'' @ d2 (minute t) @ '':'' @ d2 (second t)"

text \<open>\<open>str(datetime)\<close>: the microseconds are printed unless they are zero.\<close>

definition str_datetime :: "datetime \<Rightarrow> string" where
  "str_datetime t =
     strftime_long t @ (if microsecond t = 0 then [] else ''.'' @ d6 (microsecond t))"

text \<open>
  The world outside the program: the file system (path to content, and which paths can be
  opened for writing), the environment variables of the process, the clock (a sequence of
  readings of which \<open>reads\<close> have been taken) and \<open>network\<close>, the requests the code of the
  two files sends over the network itself, in order (the calls made inside the generation
  service and inside the crew belong to those collaborators). \<open>history\<close> is a history
  variable: it records, in order, each generation call issued by the conference workflow,
  each output it stores, and each entry into the handler of a failed call.
\<close>

record request =
  req_model :: string
  req_temperature :: real
  req_max_tokens :: int
  req_messages :: "(string \<times> string) list"

datatype event = Issued string request | Stored string string | Raised string error

record world =
  files :: "string \<rightharpoonup> string"
  writable :: "string \<Rightarrow> bool"
  environ :: "string \<rightharpoonup> string"
  clock :: "nat \<Rightarrow> datetime"
  reads :: nat
  network :: "string list"
  history :: "event list"

definition now :: "world \<Rightarrow> datetime \<times> world" where
  "now wd = (clock wd (reads wd), wd\<lparr>reads := Suc (reads wd)\<rparr>)"

section \<open>The conference planning workflow (autogen demo)\<close>

text \<open>
  \<open>Config\<close> lives in a module that is not part of the sources; its attributes are taken as
  a parameter. So is the generation service: \<open>openai\<close> builds a client from the key and
  the base URL, and \<open>create\<close> is \<open>client.chat.completions.create\<close> followed by
  \<open>response.choices[0].message.content\<close>. The service has a hidden state of type \<open>'c\<close>;
  a call either raises (\<open>Inl\<close>) or returns the generated text.
\<close>

record config =
  validate_setup :: bool
  API_KEY :: string
  API_BASE :: string
  OPENAI_MODEL :: string
  AGENT_TEMPERATURE :: real
  AGENT_MAX_TOKENS :: int

record 'c workflow =
  client :: 'c
  outputs :: dict
  model :: string
  conference_name :: string
  conference_type :: string
  duration :: string

type_synonym 'c create = "'c \<Rightarrow> request \<Rightarrow> (error + string) \<times> 'c"

type_synonym 'c result = "(error + unit) \<times> 'c workflow \<times> world"

definition init ::
  "config \<Rightarrow> (string \<Rightarrow> string \<Rightarrow> 'c) \<Rightarrow> string \<Rightarrow> string \<Rightarrow> string \<Rightarrow> error + 'c workflow" where
  "init cfg openai name type dur =
     (if \<not> validate_setup cfg then Inl (SystemExit 1)
      else Inr \<lparr>client = openai (API_KEY cfg) (API_BASE cfg), outputs = [],
                model = OPENAI_MODEL cfg, conference_name = name,
                conference_type = type, duration = dur\<rparr>)"

text \<open>
  The \<open>try\<close> block shared by the five phases: issue the call, and on success store the
  content under the phase's key; on failure the handler prints and re-raises the same
  exception.
\<close>

definition mk_request :: "config \<Rightarrow> 'c workflow \<Rightarrow> string \<Rightarrow> string \<Rightarrow> request" where
  "mk_request cfg w system_prompt user_message =
     \<lparr>req_model = model w, req_temperature = AGENT_TEMPERATURE cfg,
      req_max_tokens = AGENT_MAX_TOKENS cfg,
      req_messages = [(''system'', system_prompt), (''user'', user_message)]\<rparr>"

definition generate ::
  "config \<Rightarrow> 'c create \<Rightarrow> string \<Rightarrow> string \<Rightarrow> string \<Rightarrow> 'c workflow \<Rightarrow> world \<Rightarrow> 'c result" where
  "generate cfg create key system_prompt user_message w wd =
     (let req = mk_request cfg w system_prompt user_message;
          wd1 = wd\<lparr>history := history wd @ [Issued key req]\<rparr>;
          (r, c) = create (client w) req;
          w1 = w\<lparr>client := c\<rparr>
      in case r of
           Inl e \<Rightarrow> (Inl e, w1, wd1\<lparr>history := history wd1 @ [Raised key e]\<rparr>)
         | Inr content \<Rightarrow>
             (Inr (), w1\<lparr>outputs := dict_set (outputs w1) key content\<rparr>,
              wd1\<lparr>history := history wd1 @ [Stored key content]\<rparr>))"

subsection \<open>Phase 1: theme\<close>

definition theme_system_prompt :: "'c workflow \<Rightarrow> string" where
  "theme_system_prompt w =
     ''You are a conference theme strategist specializing in '' @ conference_type w @ '' events.'' @ nl @
     ''Define a compelling conference theme and vision. Include:'' @ nl @
     ''- Conference theme/tagline (creative and memorable)'' @ nl @
     ''- Target audience (who should attend?)'' @ nl @
     ''- Key topics/tracks (3-4 main themes)'' @ nl @
     ''- Conference goals and value proposition'' @ nl @
     ''Keep it concise - 200 words.''"

definition theme_user_message :: "'c workflow \<Rightarrow> string" where
  "theme_user_message w =
     ''Create a compelling theme and vision for '' @ [CHR 0x27] @ conference_name w @ [CHR 0x27] @
     '', a '' @ duration w @ '' '' @ conference_type w @ '' conference.''"

definition phase_theme :: "config \<Rightarrow> 'c create \<Rightarrow> 'c workflow \<Rightarrow> world \<Rightarrow> 'c result" where
  "phase_theme cfg create w wd =
     generate cfg create ''theme'' (theme_system_prompt w) (theme_user_message w) w wd"

subsection \<open>Phase 2: speakers\<close>

definition speakers_system_prompt :: "'c workflow \<Rightarrow> string" where
  "speakers_system_prompt w =
     ''You are a speaker curator for '' @ conference_type w @ '' conferences.'' @ nl @
     ''Based on the conference theme, identify:'' @ nl @
     ''- 6-8 potential speaker profiles (roles/expertise, not specific names)'' @ nl @
     ''- Session types (keynotes, workshops, panels, lightning talks)'' @ nl @
     ''- Topic suggestions for each track'' @ nl @
     ''- Speaking format recommendations'' @ nl @
     ''Keep it concise - 200 words.''"

definition speakers_user_message :: "'c workflow \<Rightarrow> string \<Rightarrow> string" where
  "speakers_user_message w theme =
     ''Conference Theme and Vision:'' @ nl @
     theme @ nl @
     nl @
     ''Now identify ideal speaker profiles and session topics for this '' @ duration w @ '' conference.''"

definition phase_speakers :: "config \<Rightarrow> 'c create \<Rightarrow> 'c workflow \<Rightarrow> world \<Rightarrow> 'c result" where
  "phase_speakers cfg create w wd =
     (case dict_get (outputs w) ''theme'' of
        Inl e \<Rightarrow> (Inl e, w, wd)
      | Inr theme \<Rightarrow>
          generate cfg create ''speakers'' (speakers_system_prompt w)
            (speakers_user_message w theme) w wd)"

subsection \<open>Phase 3: schedule\<close>

definition schedule_system_prompt :: "'c workflow \<Rightarrow> string" where
  "schedule_system_prompt w =
     ''You are a conference schedule planner.'' @ nl @
     ''Based on the theme and speaker information, create a detailed '' @ duration w @ '' agenda:'' @ nl @
     ''- Day-by-day breakdown'' @ nl @
     ''- Time slots for each session (use realistic times: 9am-5pm)'' @ nl @
     ''- Balance of keynotes, workshops, panels, and networking'' @ nl @
     ''- Include breaks, meals, and networking time'' @ nl @
     ''- Note parallel tracks if applicable'' @ nl @
     ''Keep it structured and clear - 250 words.''"

definition schedule_user_message :: "'c workflow \<Rightarrow> string \<Rightarrow> string \<Rightarrow> string" where
  "schedule_user_message w theme speakers =
     ''Conference Theme:'' @ nl @
     theme @ nl @
     nl @
     ''Speaker & Session Information:'' @ nl @
     speakers @ nl @
     nl @
     ''Create a detailed '' @ duration w @ '' conference schedule.''"

definition phase_schedule :: "config \<Rightarrow> 'c create \<Rightarrow> 'c workflow \<Rightarrow> world \<Rightarrow> 'c result" where
  "phase_schedule cfg create w wd =
     (case dict_get (outputs w) ''theme'' of
        Inl e \<Rightarrow> (Inl e, w, wd)
      | Inr theme \<Rightarrow>
          (case dict_get (outputs w) ''speakers'' of
             Inl e \<Rightarrow> (Inl e, w, wd)
           | Inr speakers \<Rightarrow>
               generate cfg create ''schedule'' (schedule_system_prompt w)
                 (schedule_user_message w theme speakers) w wd))"

subsection \<open>Phase 4: logistics\<close>

definition logistics_system_prompt :: string where
  "logistics_system_prompt =
     ''You are a conference logistics coordinator.'' @ nl @
     ''Based on the schedule and expected attendees, plan:'' @ nl @
     ''- Venue requirements (room sizes, AV equipment, layout)'' @ nl @
     ''- Catering needs (meals, breaks, dietary considerations)'' @ nl @
     ''- Registration and check-in process'' @ nl @
     ''- Technology requirements (WiFi, streaming, app)'' @ nl @
     ''- Contingency plans'' @ nl @
     ''Keep it practical and concise - 200 words.''"

definition logistics_user_message :: "string \<Rightarrow> string \<Rightarrow> string" where
  "logistics_user_message schedule theme =
     ''Conference Schedule:'' @ nl @
     schedule @ nl @
     nl @
     ''Conference Theme & Audience:'' @ nl @
     theme @ nl @
     nl @
     ''Plan the logistics for this conference.''"

definition phase_logistics :: "config \<Rightarrow> 'c create \<Rightarrow> 'c workflow \<Rightarrow> world \<Rightarrow> 'c result" where
  "phase_logistics cfg create w wd =
     (case dict_get (outputs w) ''schedule'' of
        Inl e \<Rightarrow> (Inl e, w, wd)
      | Inr schedule \<Rightarrow>
          (case dict_get (outputs w) ''theme'' of
             Inl e \<Rightarrow> (Inl e, w, wd)
           | Inr theme \<Rightarrow>
               generate cfg create ''logistics'' logistics_system_prompt
                 (logistics_user_message schedule theme) w wd))"

subsection \<open>Phase 5: marketing\<close>

definition marketing_system_prompt :: string where
  "marketing_system_prompt =
     ''You are a conference marketing strategist.'' @ nl @
     ''Based on all conference details, create a marketing plan:'' @ nl @
     ''- Key marketing messages and positioning'' @ nl @
     ''- Target promotion channels (social media, email, partnerships)'' @ nl @
     ''- Early bird vs regular pricing strategy'' @ nl @
     ''- Promotional timeline (3 months before event)'' @ nl @
     ''- Content marketing ideas'' @ nl @
     ''Keep it actionable - 200 words.''"

definition marketing_user_message :: "string \<Rightarrow> string \<Rightarrow> string" where
  "marketing_user_message theme schedule =
     ''Conference Details:'' @ nl @
     nl @
     ''Theme & Vision:'' @ nl @
     theme @ nl @
     nl @
     ''Schedule Overview:'' @ nl @
     schedule @ nl @
     nl @
     ''Create a comprehensive marketing strategy for this conference.''"

definition phase_marketing :: "config \<Rightarrow> 'c create \<Rightarrow> 'c workflow \<Rightarrow> world \<Rightarrow> 'c result" where
  "phase_marketing cfg create w wd =
     (case dict_get (outputs w) ''theme'' of
        Inl e \<Rightarrow> (Inl e, w, wd)
      | Inr theme \<Rightarrow>
          (case dict_get (outputs w) ''schedule'' of
             Inl e \<Rightarrow> (Inl e, w, wd)
           | Inr schedule \<Rightarrow>
               generate cfg create ''marketing'' marketing_system_prompt
                 (marketing_user_message theme schedule) w wd))"

subsection \<open>Summary and output file\<close>

definition sections :: "(string \<times> string) list" where
  "sections =
     [(''THEME & VISION'', ''theme''),
      (''SPEAKERS & TOPICS'', ''speakers''),
      (''CONFERENCE SCHEDULE'', ''schedule''),
      (''LOGISTICS PLAN'', ''logistics''),
      (''MARKETING STRATEGY'', ''marketing'')]"

text \<open>The loop that prints the sections: all that matters here is that it looks every key up.\<close>

fun print_sections :: "dict \<Rightarrow> (string \<times> string) list \<Rightarrow> error + unit" where
  "print_sections d [] = Inr ()"
| "print_sections d ((title, key) # rest) =
     (case dict_get d key of Inl e \<Rightarrow> Inl e | Inr v \<Rightarrow> print_sections d rest)"

text \<open>
  The loop that writes the sections, on the text written so far. A lookup that raises
  leaves what was written before it.
\<close>

fun write_sections :: "dict \<Rightarrow> (string \<times> string) list \<Rightarrow> string \<Rightarrow> error option \<times> string" where
  "write_sections d [] acc = (None, acc)"
| "write_sections d ((title, key) # rest) acc =
     (let acc1 = acc @ nl @ rule80 (CHR ''-'') @ nl @ title @ nl @ rule80 (CHR ''-'') @ nl
      in case dict_get d key of
           Inl e \<Rightarrow> (Some e, acc1)
         | Inr v \<Rightarrow> write_sections d rest (acc1 @ v @ nl))"

definition header :: "'c workflow \<Rightarrow> datetime \<Rightarrow> string" where
  "header w generated =
     rule80 (CHR ''='') @ nl @
     ''CONFERENCE PLANNING - '' @ upper (conference_name w) @ nl @
     rule80 (CHR ''='') @ nl @
     ''Generated: '' @ strftime_long generated @ nl @
     ''Model: '' @ model w @ nl @
     ''Type: '' @ conference_type w @ nl @
     ''Duration: '' @ duration w @ nl @ nl"

text \<open>Everything written to the output file, given the clock reading of the header.\<close>

definition document :: "'c workflow \<Rightarrow> datetime \<Rightarrow> error option \<times> string" where
  "document w generated = write_sections (outputs w) sections (header w generated)"

definition output_file :: "datetime \<Rightarrow> string" where
  "output_file timestamp = ''conference_plan_'' @ strftime_compact timestamp @ ''.txt''"

definition print_summary :: "'c workflow \<Rightarrow> world \<Rightarrow> (error + unit) \<times> world" where
  "print_summary w wd =
     (case print_sections (outputs w) sections of
        Inl e \<Rightarrow> (Inl e, wd)
      | Inr u \<Rightarrow>
          (let (timestamp, wd1) = now wd
           in if \<not> writable wd1 (output_file timestamp)
              then (Inl (OSError (output_file timestamp)), wd1)
              else
                (let (generated, wd2) = now wd1;
                     (err, text) = document w generated;
                     wd3 = wd2\<lparr>files := (files wd2)(output_file timestamp \<mapsto> text)\<rparr>
                 in case err of
                      Some e \<Rightarrow> (Inl e, wd3)
                    | None \<Rightarrow> (Inr (), snd (now wd3)))))"

subsection \<open>The run\<close>

definition and_then :: "'c result \<Rightarrow> ('c workflow \<Rightarrow> world \<Rightarrow> 'c result) \<Rightarrow> 'c result" where
  "and_then r f = (case r of (Inl e, w, wd) \<Rightarrow> (Inl e, w, wd) | (Inr u, w, wd) \<Rightarrow> f w wd)"

definition run :: "config \<Rightarrow> 'c create \<Rightarrow> 'c workflow \<Rightarrow> world \<Rightarrow> 'c result" where
  "run cfg create w wd =
     and_then (and_then (and_then (and_then (and_then
       (phase_theme cfg create w (snd (now wd)))
       (phase_speakers cfg create))
       (phase_schedule cfg create))
       (phase_logistics cfg create))
       (phase_marketing cfg create))
       (\<lambda>w wd. case print_summary w wd of (r, wd') \<Rightarrow> (r, w, wd'))"

subsection \<open>The script\<close>

text \<open>
  The script never reads its command line: the three parameters are constants of the
  file. \<open>argv\<close> is what the process was started with; \<open>installed\<close> says whether the
  import of the client library succeeds. The handler around the workflow catches
  \<open>Exception\<close>, prints a message and lets the script end.
\<close>

definition CONFERENCE_NAME :: string where
  "CONFERENCE_NAME = ''AI Horizons 2026''"

definition CONFERENCE_TYPE :: string where
  "CONFERENCE_TYPE = ''AI/ML technology''"

definition DURATION :: string where
  "DURATION = ''3 days''"

definition autogen_script ::
  "bool \<Rightarrow> config \<Rightarrow> (string \<Rightarrow> string \<Rightarrow> 'c) \<Rightarrow> 'c create \<Rightarrow> string list \<Rightarrow> world
     \<Rightarrow> (error + unit) \<times> world" where
  "autogen_script installed cfg openai create argv wd =
     (if \<not> installed then (Inl (SystemExit 1), wd)
      else
        (case init cfg openai CONFERENCE_NAME CONFERENCE_TYPE DURATION of
           Inl e \<Rightarrow> (if is_Exception e then (Inr (), wd) else (Inl e, wd))
         | Inr w \<Rightarrow>
             (case run cfg create w wd of
                (Inl e, w', wd') \<Rightarrow> (if is_Exception e then (Inr (), wd') else (Inl e, wd'))
              | (Inr u, w', wd') \<Rightarrow> (Inr (), wd'))))"

section \<open>The travel planning crew (crewai demo)\<close>

subsection \<open>Tools\<close>

text \<open>
  The body of each tool is a string expression: it builds \<open>search_query\<close>, never uses it,
  and returns the template. A tool runs in the world like any other code of the file, so
  it takes the world and returns it with its result; the \<open>requests\<close> module is imported by
  the file and used nowhere. \<open>search_flight_prices\<close> has the default
  \<open>departure_city = "New York"\<close>.
\<close>

definition search_flight_prices :: "string \<Rightarrow> string \<Rightarrow> world \<Rightarrow> string \<times> world" where
  "search_flight_prices destination departure_city wd =
     (let search_query =
            ''flights from '' @ departure_city @ '' to '' @ destination @ '' prices '' @
            ''2026 best options''
      in
       (nl @
        ''    Research task: Find flights from '' @ departure_city @ '' to '' @ destination @
        ''.'' @ nl @
        nl @
        ''    Please research and provide:'' @ nl @
        ''    1. Current flight options with prices (check Kayak, Skyscanner, Google '' @
        ''Flights)'' @ nl @
        ''    2. Airlines operating these routes'' @ nl @
        ''    3. Flight durations and layover information'' @ nl @
        ''    4. Best booking times and price trends'' @ nl @
        ''    5. Seasonal pricing variations'' @ nl @
        nl @
        ''    Focus on realistic, current pricing for January 2026 travel.'' @ nl @
        ''    '', wd))"

definition search_hotel_options :: "string \<Rightarrow> string \<Rightarrow> world \<Rightarrow> string \<times> world" where
  "search_hotel_options location check_in_date wd =
     (let search_query =
            ''hotels in '' @ location @ '' '' @ check_in_date @ '' reviews ratings '' @
            ''prices 2026''
      in
       (nl @
        ''    Research task: Find hotels in '' @ location @ '' for check-in '' @
        check_in_date @ ''.'' @ nl @
        nl @
        ''    Please research and provide:'' @ nl @
        ''    1. Top-rated hotels with guest reviews (check Booking.com, TripAdvisor, '' @
        ''Google Hotels)'' @ nl @
        ''    2. Current pricing for 5-night stays'' @ nl @
        ''    3. Hotel amenities and facilities'' @ nl @
        ''    4. Location details and proximity to attractions'' @ nl @
        ''    5. Guest ratings and recommendation reasons'' @ nl @
        nl @
        ''    Include budget, mid-range, and luxury options.'' @ nl @
        ''    Focus on hotels with high ratings and realistic current prices.'' @ nl @
        ''    '', wd))"

definition search_attractions_activities :: "string \<Rightarrow> world \<Rightarrow> string \<times> world" where
  "search_attractions_activities destination wd =
     (let search_query =
            destination @ '' attractions activities tours things to do 2026''
      in
       (nl @
        ''    Research task: Find attractions and activities in '' @ destination @ ''.'' @
        nl @
        nl @
        ''    Please research and provide:'' @ nl @
        ''    1. Top-rated attractions and their estimated visit times'' @ nl @
        ''    2. Popular day tours and multi-day excursions'' @ nl @
        ''    3. Outdoor activities (hiking, water sports, wildlife viewing)'' @ nl @
        ''    4. Cultural sites and local experiences'' @ nl @
        ''    5. Typical costs for tours and entrance fees'' @ nl @
        ''    6. Best time to visit each location'' @ nl @
        ''    7. Transportation options between sites'' @ nl @
        nl @
        ''    Include hidden gems and less-known but highly-rated activities.'' @ nl @
        ''    Focus on realistic itineraries that can be completed in 5 days.'' @ nl @
        ''    '', wd))"

definition search_travel_costs :: "string \<Rightarrow> world \<Rightarrow> string \<times> world" where
  "search_travel_costs destination wd =
     (let search_query =
            destination @ '' travel costs budget prices meals transport 2025''
      in
       (nl @
        ''    Research task: Find cost information for a trip to '' @ destination @ ''.'' @
        nl @
        nl @
        ''    Please research and provide:'' @ nl @
        ''    1. Average meal costs (budget, mid-range, restaurants)'' @ nl @
        ''    2. Public transportation costs and rental car prices'' @ nl @
        ''    3. Tour and activity pricing'' @ nl @
        ''    4. Entrance fees for attractions'' @ nl @
        ''    5. Estimated daily costs for different budget levels'' @ nl @
        ''    6. Money-saving tips and best budget periods'' @ nl @
        ''    7. Currency exchange rates and payment methods'' @ nl @
        nl @
        ''    Provide realistic, current pricing information for 2025.'' @ nl @
        ''    Focus on actual costs travelers can expect.'' @ nl @
        ''    '', wd))"


subsection \<open>Agents and tasks\<close>

datatype tool =
    Tool_search_flight_prices
  | Tool_search_hotel_options
  | Tool_search_attractions_activities
  | Tool_search_travel_costs

record agent =
  role :: string
  goal :: string
  backstory :: string
  tools :: "tool list"
  verbose :: bool
  allow_delegation :: bool

text \<open>\<open>task_context\<close> is the \<open>context\<close> argument: the tasks whose output a task is given.\<close>

record task =
  description :: string
  agent :: agent
  expected_output :: string
  task_context :: "string list option"

definition create_flight_agent ::
  "string \<Rightarrow> string \<Rightarrow> agent" where
  "create_flight_agent destination trip_dates =
     (
       \<lparr>role =
          ''Senior Aviation Travel Consultant'',
        goal =
          ''Research and recommend the best flight options for the '' @ destination @ '' '' @
          ''trip ('' @ trip_dates @ ''), considering dates, airlines, prices, and '' @
          ''flight durations. Use real data from flight booking sites to provide '' @
          ''accurate, current pricing.'',
        backstory =
          ''You are a world-renowned aviation expert with over 15 years of experience '' @
          ''in the travel industry. Having worked with major airlines and booking '' @
          ''platforms, you possess insider knowledge of pricing algorithms, seasonal '' @
          ''trends, and route optimization. You'' @ [CHR 0x27] @ ''ve personally '' @
          ''flown over 2 million miles and have mastered the art of finding hidden '' @
          ''deals and optimal connections. Your clients trust you to balance cost-efficiency '' @
          ''with comfort and convenience. You pride yourself on staying updated '' @
          ''with real-time flight data and industry changes.'',
        tools = [Tool_search_flight_prices],
        verbose = True,
        allow_delegation = False\<rparr>)"

definition create_hotel_agent ::
  "string \<Rightarrow> string \<Rightarrow> agent" where
  "create_hotel_agent destination trip_dates =
     (let hotel_location =
            (if lower destination = ''iceland'' then ''Reykjavik''
             else if lower destination = ''france'' then ''Paris''
             else if lower destination = ''japan'' then ''Tokyo''
             else destination)
      in
       \<lparr>role =
          ''Elite Hospitality Concierge'',
        goal =
          ''Suggest top-rated hotels in '' @ hotel_location @ '' for the '' @ destination @
          '' '' @
          ''trip ('' @ trip_dates @ ''), considering amenities, location, and value '' @
          ''for money. Use real hotel data from booking sites with current prices '' @
          ''and reviews.'',
        backstory =
          ''You are a distinguished hospitality concierge with an impeccable reputation '' @
          ''in luxury and boutique hotel curation. Having visited over 500 properties '' @
          ''worldwide and maintained relationships with hotel managers globally, '' @
          ''you understand the nuances that make a stay exceptional. Your expertise '' @
          ''spans from budget-friendly gems to five-star resorts. You'' @ [CHR 0x27] @
          ''re '' @
          ''known for reading between the lines of reviews, identifying authentic '' @
          ''feedback, and matching travelers with their perfect accommodation. '' @
          ''Your recommendations have earned you features in top travel magazines '' @
          ''and a loyal following of satisfied clients who trust your meticulous '' @
          ''research and insider knowledge.'',
        tools = [Tool_search_hotel_options],
        verbose = True,
        allow_delegation = False\<rparr>)"

definition create_itinerary_agent ::
  "string \<Rightarrow> string \<Rightarrow> agent" where
  "create_itinerary_agent destination trip_duration =
     (
       \<lparr>role =
          ''Master Travel Experience Designer'',
        goal =
          ''Create a detailed day-by-day travel plan with activities and attractions '' @
          ''that maximize the '' @ destination @ '' experience in '' @ trip_duration @
          ''. '' @
          ''Use real current information about attractions, opening hours, and '' @
          ''accessibility.'',
        backstory =
          ''You are an award-winning travel designer with a deep cultural connection '' @
          ''to '' @ destination @ ''. After living there for several years and '' @
          ''leading hundreds of tours, you'' @ [CHR 0x27] @ ''ve developed an intimate '' @
          ''understanding of the destination'' @ [CHR 0x27] @ ''s soul - from iconic '' @
          ''landmarks to secret local spots that tourists rarely discover. Your '' @
          ''itineraries are legendary for their perfect pacing, mixing popular '' @
          ''attractions with authentic experiences. You consider everything: seasonal '' @
          ''weather patterns, crowd levels, optimal visiting times, and the cultural '' @
          ''significance of each location. Travel bloggers often cite your recommendations, '' @
          ''and your clients describe your itineraries as '' @ [CHR 0x27] @
          ''life-changing '' @
          ''journeys'' @ [CHR 0x27] @ '' rather than simple vacation plans.'',
        tools = [Tool_search_attractions_activities],
        verbose = True,
        allow_delegation = False\<rparr>)"

definition create_budget_agent ::
  "string \<Rightarrow> agent" where
  "create_budget_agent destination =
     (
       \<lparr>role =
          ''Travel Finance Optimization Expert'',
        goal =
          ''Calculate total trip costs for '' @ destination @ '' and identify cost-saving '' @
          ''opportunities while maintaining quality. Use real current pricing data '' @
          ''for all expenses.'',
        backstory =
          ''You are a certified financial planner who specializes exclusively in '' @
          ''travel economics. With an MBA in Hospitality Management and a background '' @
          ''in international finance, you'' @ [CHR 0x27] @ ''ve mastered the art '' @
          ''of maximizing travel value. You'' @ [CHR 0x27] @ ''ve personally audited '' @
          ''travel expenses for Fortune 500 executives and budget backpackers alike, '' @
          ''always finding innovative ways to stretch every dollar without sacrificing '' @
          ''experience quality. Your proprietary budgeting framework accounts for '' @
          ''seasonal pricing variations, currency fluctuations, and local economic '' @
          ''factors. You'' @ [CHR 0x27] @ ''re known for uncovering hidden fees '' @
          ''before they surprise travelers and for identifying legitimate discount '' @
          ''opportunities that others miss. Financial publications regularly feature '' @
          ''your cost-optimization strategies, and travelers credit you with making '' @
          ''their dream trips financially achievable.'',
        tools = [Tool_search_travel_costs],
        verbose = True,
        allow_delegation = False\<rparr>)"

definition create_marketing_agent ::
  "string \<Rightarrow> agent" where
  "create_marketing_agent destination =
     (
       \<lparr>role =
          ''Travel Marketing Strategist'',
        goal =
          ''Create a compelling marketing summary for the '' @ destination @ '' '' @
          ''trip package that highlights unique selling points and appeals to target '' @
          ''travelers.'',
        backstory =
          ''You are a creative marketing strategist specializing in travel and '' @
          ''tourism with 15 years of experience crafting compelling travel narratives. '' @
          ''You'' @ [CHR 0x27] @ ''ve worked with major travel brands and boutique '' @
          ''tour operators, creating campaigns that convert browsers into bookers. '' @
          ''Your talent lies in identifying the emotional triggers that make people '' @
          ''want to travel - the promise of adventure, relaxation, cultural immersion, '' @
          ''or personal transformation. You understand how to highlight unique '' @
          ''value propositions, create urgency, and build trust through authentic '' @
          ''storytelling. Your marketing copy has consistently achieved high conversion '' @
          ''rates by balancing aspirational imagery with practical details that '' @
          ''help travelers envision their perfect trip.'',
        tools = [],
        verbose = True,
        allow_delegation = False\<rparr>)"

definition create_flight_task ::
  "agent \<Rightarrow> string \<Rightarrow> string \<Rightarrow> string \<Rightarrow> task" where
  "create_flight_task flight_agent destination trip_dates departure_city =
     (
       \<lparr>description =
          ''Research and compile a list of REAL flight options from '' @ departure_city @
          '' '' @
          ''to '' @ destination @ '' for the trip ('' @ trip_dates @ ''). Use actual '' @
          ''current flight data from booking sites like Skyscanner, Kayak, Google '' @
          ''Flights, or Expedia. Find at least 2-3 different flight options from '' @
          ''major airlines, including details about departure times, arrival times, '' @
          ''duration, and current realistic prices. Provide recommendations on '' @
          ''which flight offers the best value considering both price and convenience.'',
        agent = flight_agent,
        expected_output =
          ''A detailed report with 2-3 REAL flight options from '' @ departure_city @ '' '' @
          ''to '' @ destination @ '' including airlines, times, duration, current '' @
          ''prices, and a recommendation with reasoning based on actual data from '' @
          ''flight booking sites'',
        task_context = None\<rparr>)"

definition create_hotel_task ::
  "agent \<Rightarrow> string \<Rightarrow> string \<Rightarrow> task" where
  "create_hotel_task hotel_agent destination trip_dates =
     (let hotel_location =
            (if lower destination = ''iceland'' then ''Reykjavik''
             else if lower destination = ''france'' then ''Paris''
             else if lower destination = ''japan'' then ''Tokyo''
             else destination)
      in
       \<lparr>description =
          ''Based on the trip dates ('' @ trip_dates @ ''), find and recommend '' @
          ''the top 3-4 REAL hotels in '' @ hotel_location @ ''. Research actual '' @
          ''hotels on Booking.com, TripAdvisor, Google Hotels, and Expedia. For '' @
          ''each hotel, provide the actual name, current guest ratings, real prices '' @
          ''per night, confirmed amenities, and explain why it suits this trip. '' @
          ''Include a mix of budget, mid-range, and luxury options with honest '' @
          ''reviews.'',
        agent = hotel_agent,
        expected_output =
          ''A curated list of 3-4 REAL hotel recommendations in '' @ hotel_location @ '' '' @
          ''with actual details about each hotel, confirmed amenities, real guest '' @
          ''ratings, current prices, and personalized recommendations based on '' @
          ''actual guest reviews'',
        task_context = None\<rparr>)"

definition create_itinerary_task ::
  "agent \<Rightarrow> string \<Rightarrow> string \<Rightarrow> string \<Rightarrow> task" where
  "create_itinerary_task itinerary_agent destination trip_duration trip_dates =
     (
       \<lparr>description =
          ''Create a detailed '' @ trip_duration @ '' itinerary for '' @ destination @ '' '' @
          ''('' @ trip_dates @ '') based on REAL current information. Research '' @
          ''actual attractions, their opening hours, accessibility, and entry fees. '' @
          ''Plan day-by-day activities including visits to real attractions and '' @
          ''verified sites. Include realistic estimated travel times between locations, '' @
          ''activity durations, and recommended visit times. Consider actual weather '' @
          ''patterns for this time period in '' @ destination @ '' and make the '' @
          ''itinerary realistic and well-paced.'',
        agent = itinerary_agent,
        expected_output =
          ''A detailed day-by-day itinerary for '' @ destination @ '' with REAL '' @
          ''activities based on verified attractions, realistic travel times, accurate '' @
          ''estimated durations, current entry fees, and practical tips for '' @
          trip_duration @ '' trip to '' @ destination,
        task_context = None\<rparr>)"

definition create_budget_task ::
  "agent \<Rightarrow> string \<Rightarrow> string \<Rightarrow> task" where
  "create_budget_task budget_agent destination trip_duration =
     (
       \<lparr>description =
          ''Based on the REAL flight options, hotel recommendations, and itinerary '' @
          ''created by the other agents, calculate a comprehensive budget for the '' @
          trip_duration @ '' '' @ destination @ '' trip using current pricing. '' @
          ''Research and include actual costs for flights, accommodation, meals '' @
          ''(use real restaurant prices in the destination), activities/tours (verified '' @
          ''prices), transportation within '' @ destination @ '', and miscellaneous '' @
          ''expenses. Provide total cost estimates for budget, mid-range, and luxury '' @
          ''options based on real prices. Suggest genuine cost-saving tips based '' @
          ''on current market conditions.'',
        agent = budget_agent,
        expected_output =
          ''A comprehensive budget report with itemized REAL costs for flights, '' @
          ''accommodation, meals, activities with actual entry fees, transportation, '' @
          ''and total realistic estimates at different budget levels, plus evidence-based '' @
          ''cost-saving recommendations for a '' @ trip_duration @ '' trip to '' @
          destination,
        task_context = None\<rparr>)"

definition create_marketing_task ::
  "agent \<Rightarrow> string \<Rightarrow> string \<Rightarrow> task" where
  "create_marketing_task marketing_agent destination trip_duration =
     (
       \<lparr>description =
          ''Create a compelling marketing summary for the '' @ trip_duration @ '' '' @
          destination @ '' trip package based on all the information gathered by '' @
          ''other agents (flights, hotels, itinerary, budget). Your summary should: '' @
          ''1) Highlight 3-5 unique selling points that make this package special '' @
          ''2) Create an engaging headline and opening paragraph 3) Include key '' @
          ''package details in an appealing way 4) Address potential traveler concerns '' @
          ''(value, safety, experience quality) 5) End with a strong call-to-action '' @
          ''Write in an enthusiastic but authentic tone that inspires booking decisions. '' @
          ''Keep it concise (250-300 words) but impactful.'',
        agent = marketing_agent,
        expected_output =
          ''A polished marketing summary with headline, engaging body copy highlighting '' @
          ''unique value propositions, key package details, and persuasive call-to-action '' @
          ''for the '' @ destination @ '' trip'',
        task_context = Some []\<rparr>)"


subsection \<open>Orchestration\<close>

text \<open>
  \<open>shared_config\<close> is not part of the sources: what \<open>main\<close> reads of it is a parameter.
  So is the crew library: \<open>kickoff\<close> stands for \<open>Crew(...).kickoff(inputs=...)\<close> followed by
  \<open>str\<close> of the result, and either raises or returns that text. The fields of \<open>inputs\<close>
  are the keys of the dictionary passed to it.
\<close>

record shared_config =
  validate_config :: bool
  shared_API_KEY :: string
  shared_API_BASE :: string
  USE_GROQ :: bool
  shared_OPENAI_MODEL :: string

record crew =
  agents :: "agent list"
  tasks :: "task list"
  crew_verbose :: bool
  process :: string

record inputs =
  input_trip_destination :: string
  input_trip_duration :: string
  input_trip_dates :: string
  input_departure_city :: string
  input_travelers :: int
  input_budget_preference :: string

type_synonym kickoff = "crew \<Rightarrow> inputs \<Rightarrow> error + string"

fun str_nat :: "nat \<Rightarrow> string" where
  "str_nat n = (if n < 10 then [digit n] else str_nat (n div 10) @ [digit n])"

definition str_int :: "int \<Rightarrow> string" where
  "str_int i = (if i < 0 then ''-'' @ str_nat (nat (- i)) else str_nat (nat i))"

text \<open>Everything \<open>main\<close> writes to its output file.\<close>

definition report ::
  "string \<Rightarrow> string \<Rightarrow> string \<Rightarrow> string \<Rightarrow> int \<Rightarrow> string \<Rightarrow> datetime \<Rightarrow> string
     \<Rightarrow> string" where
  "report destination trip_duration trip_dates departure_city travelers budget_preference
     execution_time result =
     rule80 (CHR ''='') @ nl @
     ''CrewAI Multi-Agent Travel Planning System - Real API Execution Report'' @ nl @
     ''Planning a '' @ trip_duration @ '' Trip to '' @ destination @ nl @
     rule80 (CHR ''='') @ nl @
     nl @
     ''Trip Details:'' @ nl @
     ''  Destination: '' @ destination @ nl @
     ''  Duration: '' @ trip_duration @ nl @
     ''  Dates: '' @ trip_dates @ nl @
     ''  Departure: '' @ departure_city @ nl @
     ''  Travelers: '' @ str_int travelers @ nl @
     ''  Budget Preference: '' @ budget_preference @ nl @
     nl @
     ''Execution Time: '' @ str_datetime execution_time @ nl @
     ''API Version: REAL API CALLS (OpenAI GPT-4)'' @ nl @
     ''Data Source: Web research via OpenAI'' @ nl @
     nl @
     ''IMPORTANT NOTES:'' @ nl @
     ''- All flight prices, hotel costs, and attraction information is based on '' @
     ''real data'' @ nl @
     ''- Prices are current as of the date this was run'' @ nl @
     ''- Hotel availability and prices may vary by booking date'' @ nl @
     ''- Weather conditions and attraction hours should be verified before travel'' @ nl @
     nl @
     ''FINAL TRAVEL PLAN REPORT:'' @ nl @
     rule80 (CHR ''-'') @ nl @
     result @ nl @
     rule80 (CHR ''-'') @ nl"

definition output_filename :: "string \<Rightarrow> string" where
  "output_filename destination = ''crewai_output_'' @ lower destination @ ''.txt''"

text \<open>\<open>Path(__file__).parent / output_filename\<close>, the directory of the script being a parameter.\<close>

definition output_path :: "string \<Rightarrow> string \<Rightarrow> string" where
  "output_path script_dir destination = script_dir @ ''/'' @ output_filename destination"

definition set_environ :: "shared_config \<Rightarrow> world \<Rightarrow> world" where
  "set_environ cfg wd =
     (let env1 = (environ wd)(''OPENAI_API_KEY'' \<mapsto> shared_API_KEY cfg);
          env2 = env1(''OPENAI_API_BASE'' \<mapsto> shared_API_BASE cfg);
          env3 = (if USE_GROQ cfg then env2(''OPENAI_MODEL_NAME'' \<mapsto> shared_OPENAI_MODEL cfg)
                  else env2)
      in wd\<lparr>environ := env3\<rparr>)"

definition main ::
  "shared_config \<Rightarrow> kickoff \<Rightarrow> string \<Rightarrow> string \<Rightarrow> string \<Rightarrow> string \<Rightarrow> string \<Rightarrow> int \<Rightarrow> string
     \<Rightarrow> world \<Rightarrow> (error + unit) \<times> world" where
  "main cfg kickoff script_dir destination trip_duration trip_dates departure_city travelers
     budget_preference wd =
     (if \<not> validate_config cfg then (Inl (SystemExit 1), wd)
      else
        (let wd1 = set_environ cfg wd;
             flight_agent = create_flight_agent destination trip_dates;
             hotel_agent = create_hotel_agent destination trip_dates;
             itinerary_agent = create_itinerary_agent destination trip_duration;
             budget_agent = create_budget_agent destination;
             marketing_agent = create_marketing_agent destination;
             flight_task = create_flight_task flight_agent destination trip_dates departure_city;
             hotel_task = create_hotel_task hotel_agent destination trip_dates;
             itinerary_task =
               create_itinerary_task itinerary_agent destination trip_duration trip_dates;
             budget_task = create_budget_task budget_agent destination trip_duration;
             marketing_task = create_marketing_task marketing_agent destination trip_duration;
             crew = \<lparr>agents = [flight_agent, hotel_agent, itinerary_agent, budget_agent,
                               marketing_agent],
                     tasks = [flight_task, hotel_task, itinerary_task, budget_task,
                              marketing_task],
                     crew_verbose = True, process = ''sequential''\<rparr>;
             handled = (\<lambda>e wd'. if is_Exception e then (Inr (), wd') else (Inl e, wd'))
         in case kickoff crew
                   \<lparr>input_trip_destination = destination,
                    input_trip_duration = trip_duration, input_trip_dates = trip_dates,
                    input_departure_city = departure_city, input_travelers = travelers,
                    input_budget_preference = budget_preference\<rparr> of
              Inl e \<Rightarrow> handled e wd1
            | Inr result \<Rightarrow>
                (if \<not> writable wd1 (output_path script_dir destination)
                 then handled (OSError (output_path script_dir destination)) wd1
                 else
                   (let (execution_time, wd2) = now wd1
                    in (Inr (),
                        wd2\<lparr>files := (files wd2)(output_path script_dir destination \<mapsto>
                          report destination trip_duration trip_dates departure_city travelers
                            budget_preference execution_time result)\<rparr>)))))"

text \<open>
  The script: positional arguments replace the defaults one by one. \<open>py_int\<close> is Python's
  \<open>int\<close> on strings, \<open>None\<close> where it raises \<open>ValueError\<close>.
\<close>

definition crewai_script ::
  "shared_config \<Rightarrow> kickoff \<Rightarrow> (string \<Rightarrow> int option) \<Rightarrow> string \<Rightarrow> string list \<Rightarrow> world
     \<Rightarrow> (error + unit) \<times> world" where
  "crewai_script cfg kickoff py_int script_dir argv wd =
     (let destination = (if length argv > 1 then argv ! 1 else ''Iceland'');
          trip_duration = (if length argv > 2 then argv ! 2 else ''5 days'');
          departure_city = (if length argv > 3 then argv ! 3 else ''New York'');
          trip_dates = (if length argv > 4 then argv ! 4 else ''January 15-20, 2026'');
          budget_preference = (if length argv > 6 then argv ! 6 else ''mid-range'')
      in case (if length argv > 5 then py_int (argv ! 5) else Some 2) of
           None \<Rightarrow> (Inl (ValueError (argv ! 5)), wd)
         | Some travelers \<Rightarrow>
             main cfg kickoff script_dir destination trip_duration trip_dates departure_city
               travelers budget_preference wd)"

section \<open>Notions used to state the properties\<close>

subsection \<open>The pipeline of the conference workflow\<close>

definition stage_names :: "string list" where
  "stage_names = [''theme'', ''speakers'', ''schedule'', ''logistics'', ''marketing'']"

text \<open>The five phases of \<open>run\<close>, before the summary.\<close>

definition pipeline :: "config \<Rightarrow> 'c create \<Rightarrow> 'c workflow \<Rightarrow> world \<Rightarrow> 'c result" where
  "pipeline cfg create w wd =
     and_then (and_then (and_then (and_then
       (phase_theme cfg create w wd)
       (phase_speakers cfg create))
       (phase_schedule cfg create))
       (phase_logistics cfg create))
       (phase_marketing cfg create)"

text \<open>
  The key and the request of the stage that follows the stages whose outputs are \<open>vs\<close>
  (in pipeline order): what each phase builds, read off its definition.
\<close>

fun next_key :: "string list \<Rightarrow> string" where
  "next_key [] = ''theme''"
| "next_key [t] = ''speakers''"
| "next_key [t, sp] = ''schedule''"
| "next_key [t, sp, sc] = ''logistics''"
| "next_key vs = ''marketing''"

fun request_for :: "config \<Rightarrow> 'c workflow \<Rightarrow> string list \<Rightarrow> request" where
  "request_for cfg w [] = mk_request cfg w (theme_system_prompt w) (theme_user_message w)"
| "request_for cfg w [t] =
     mk_request cfg w (speakers_system_prompt w) (speakers_user_message w t)"
| "request_for cfg w [t, sp] =
     mk_request cfg w (schedule_system_prompt w) (schedule_user_message w t sp)"
| "request_for cfg w [t, sp, sc] =
     mk_request cfg w logistics_system_prompt (logistics_user_message sc t)"
| "request_for cfg w (t # sp # sc # vs) =
     mk_request cfg w marketing_system_prompt (marketing_user_message t sc)"

text \<open>The history of the stages that stored \<open>vs\<close>, after those that stored \<open>pre\<close>.\<close>

primrec trace_from :: "config \<Rightarrow> 'c workflow \<Rightarrow> string list \<Rightarrow> string list \<Rightarrow> event list" where
  "trace_from cfg w pre [] = []"
| "trace_from cfg w pre (v # vs) =
     Issued (next_key pre) (request_for cfg w pre) # Stored (next_key pre) v #
     trace_from cfg w (pre @ [v]) vs"

definition trace :: "config \<Rightarrow> 'c workflow \<Rightarrow> string list \<Rightarrow> event list" where
  "trace cfg w vs = trace_from cfg w [] vs"

definition same_params :: "'c workflow \<Rightarrow> 'c workflow \<Rightarrow> bool" where
  "same_params w w' \<longleftrightarrow>
     model w' = model w \<and> conference_name w' = conference_name w \<and>
     conference_type w' = conference_type w \<and> duration w' = duration w"

text \<open>One phase, started after the phases before it have stored \<open>vs\<close>.\<close>

definition phase_post ::
  "config \<Rightarrow> 'c workflow \<Rightarrow> world \<Rightarrow> event list \<Rightarrow> string list \<Rightarrow> 'c result \<Rightarrow> bool" where
  "phase_post cfg w wd h vs res \<longleftrightarrow>
     (case res of (r, w', wd') \<Rightarrow>
        same_params w w' \<and>
        ((\<exists>e. r = Inl e \<and> outputs w' = zip stage_names vs \<and>
               wd' = wd\<lparr>history := h @ [Issued (next_key vs) (request_for cfg w vs),
                                         Raised (next_key vs) e]\<rparr>)
       \<or> (\<exists>v. r = Inr () \<and> outputs w' = zip stage_names (vs @ [v]) \<and>
               wd' = wd\<lparr>history := h @ [Issued (next_key vs) (request_for cfg w vs),
                                         Stored (next_key vs) v]\<rparr>)))"

text \<open>The first \<open>n\<close> phases: all of them stored their output, or one of them failed.\<close>

definition progress ::
  "config \<Rightarrow> 'c workflow \<Rightarrow> world \<Rightarrow> nat \<Rightarrow> 'c result \<Rightarrow> bool" where
  "progress cfg w wd n res \<longleftrightarrow>
     (case res of (r, w', wd') \<Rightarrow>
        same_params w w' \<and>
        (\<exists>vs. outputs w' = zip stage_names vs \<and>
           ((r = Inr () \<and> length vs = n \<and> wd' = wd\<lparr>history := history wd @ trace cfg w vs\<rparr>)
          \<or> (\<exists>e. r = Inl e \<and> length vs < n \<and>
                wd' = wd\<lparr>history := history wd @ trace cfg w vs @
                       [Issued (next_key vs) (request_for cfg w vs),
                        Raised (next_key vs) e]\<rparr>))))"

subsection \<open>Reading a history\<close>

datatype tag = Call string | Store string | Raise string

fun tag_of :: "event \<Rightarrow> tag" where
  "tag_of (Issued s req) = Call s"
| "tag_of (Stored s v) = Store s"
| "tag_of (Raised s e) = Raise s"

text \<open>The stages called, the stages stored and the values stored, in order.\<close>

fun issued :: "event list \<Rightarrow> string list" where
  "issued [] = []"
| "issued (Issued s req # h) = s # issued h"
| "issued (ev # h) = issued h"

fun stored :: "event list \<Rightarrow> string list" where
  "stored [] = []"
| "stored (Stored s v # h) = s # stored h"
| "stored (ev # h) = stored h"

fun stored_values :: "event list \<Rightarrow> string list" where
  "stored_values [] = []"
| "stored_values (Stored s v # h) = v # stored_values h"
| "stored_values (ev # h) = stored_values h"

text \<open>
  \<open>follows cfg w vs h\<close>: the history \<open>h\<close>, read after the values \<open>vs\<close> have been stored, has
  each event at the stage that comes next, and each request built from the values stored
  before it.
\<close>

fun follows :: "config \<Rightarrow> 'c workflow \<Rightarrow> string list \<Rightarrow> event list \<Rightarrow> bool" where
  "follows cfg w vs [] = True"
| "follows cfg w vs (Issued s req # h) =
     (s = next_key vs \<and> req = request_for cfg w vs \<and> follows cfg w vs h)"
| "follows cfg w vs (Stored s v # h) = (s = next_key vs \<and> follows cfg w (vs @ [v]) h)"
| "follows cfg w vs (Raised s e # h) = (s = next_key vs \<and> follows cfg w vs h)"

text \<open>The history of \<open>n\<close> stages run to their end, one after the other.\<close>

definition completed :: "nat \<Rightarrow> tag list" where
  "completed n = concat (map (\<lambda>s. [Call s, Store s]) (take n stage_names))"

text \<open>The request issued for a stage, and its text: the system prompt, then the user message.\<close>

fun issued_request :: "string \<Rightarrow> event list \<Rightarrow> request option" where
  "issued_request s [] = None"
| "issued_request s (Issued k req # h) = (if k = s then Some req else issued_request s h)"
| "issued_request s (ev # h) = issued_request s h"

definition request_text :: "request \<Rightarrow> string" where
  "request_text req = concat (map snd (req_messages req))"

text \<open>
  \<open>quotes res s s'\<close>: in the run that ended as \<open>res\<close>, a request was issued for stage \<open>s\<close>,
  stage \<open>s'\<close> has a stored output, and the text of that request contains that output
  verbatim.
\<close>

definition quotes :: "'c result \<Rightarrow> string \<Rightarrow> string \<Rightarrow> bool" where
  "quotes res s s' =
     (case issued_request s (history (snd (snd res))) of
        None \<Rightarrow> False
      | Some req \<Rightarrow>
          (case map_of (outputs (fst (snd res))) s' of
             None \<Rightarrow> False
           | Some v \<Rightarrow> sublist v (request_text req)))"

text \<open>
  \<open>returned create c res s\<close>: in the run that ended as \<open>res\<close>, a request was issued for stage
  \<open>s\<close>, and the output stored for \<open>s\<close> is the text the service \<open>create\<close>, in state \<open>c\<close>,
  returns for that request.
\<close>

definition returned :: "'c create \<Rightarrow> 'c \<Rightarrow> 'c result \<Rightarrow> string \<Rightarrow> bool" where
  "returned create c res s =
     (case issued_request s (history (snd (snd res))) of
        None \<Rightarrow> False
      | Some req \<Rightarrow>
          (case map_of (outputs (fst (snd res))) s of
             None \<Rightarrow> False
           | Some v \<Rightarrow> fst (create c req) = Inr v))"

subsection \<open>The hotel location, as the specification words it\<close>

definition hotel_location_spec :: "string \<Rightarrow> string" where
  "hotel_location_spec destination =
     (if lower destination = ''iceland'' then ''Reykjavik''
      else if lower destination = ''france'' then ''Paris''
      else if lower destination = ''japan'' then ''Tokyo''
      else destination)"

subsection \<open>The defaults of the travel script\<close>

text \<open>The defaults of the six parameters, written as command-line arguments, in order.\<close>

definition default_args :: "string list" where
  "default_args =
     [''Iceland'', ''5 days'', ''New York'', ''January 15-20, 2026'', ''2'', ''mid-range'']"

subsection \<open>Concrete collaborators and inputs\<close>

definition demo_config :: config where
  "demo_config =
     \<lparr>validate_setup = True, API_KEY = ''key'', API_BASE = ''https://api.example/v1'',
      OPENAI_MODEL = ''gpt-4o-mini'', AGENT_TEMPERATURE = 0, AGENT_MAX_TOKENS = 500\<rparr>"

definition demo_openai :: "string \<Rightarrow> string \<Rightarrow> nat" where
  "demo_openai key base = 0"

text \<open>A service that echoes the text of the request.\<close>

definition echo :: "nat create" where
  "echo c req = (Inr (request_text req), Suc c)"

text \<open>A service that answers every call with the same text.\<close>

definition canned :: "nat create" where
  "canned c req = (Inr ''ok'', Suc c)"

text \<open>A service whose call number \<open>n\<close> (from 0) raises, the calls before it succeeding.\<close>

definition fail_at :: "nat \<Rightarrow> nat create" where
  "fail_at n c req = (if c = n then Inl (Exception ''boom'') else Inr ''ok'', Suc c)"

text \<open>A clock that advances by one second at each reading.\<close>

definition demo_clock :: "nat \<Rightarrow> datetime" where
  "demo_clock n =
     \<lparr>year = 2026, month = 1, day = 15, hour = 10, minute = 30, second = n mod 60,
      microsecond = 0\<rparr>"

definition demo_world :: world where
  "demo_world =
     \<lparr>files = Map.empty, writable = (\<lambda>path. True), environ = Map.empty,
      clock = demo_clock, reads = 0, network = [], history = []\<rparr>"

text \<open>The workflow the script builds, and one with all five outputs stored.\<close>

definition demo_workflow :: "nat workflow" where
  "demo_workflow =
     \<lparr>client = 0, outputs = [], model = ''gpt-4o-mini'',
      conference_name = CONFERENCE_NAME, conference_type = CONFERENCE_TYPE,
      duration = DURATION\<rparr>"

definition planned_workflow :: "nat workflow" where
  "planned_workflow =
     demo_workflow\<lparr>outputs := zip stage_names [''T'', ''SP'', ''SC'', ''L'', ''M'']\<rparr>"

text \<open>
  What the echoing service returns at each stage of a run with the parameters of \<open>w\<close>: the
  text of the request of that stage, built from the texts before it.
\<close>

definition echo_theme :: "'c workflow \<Rightarrow> string" where
  "echo_theme w = theme_system_prompt w @ theme_user_message w"

definition echo_speakers :: "'c workflow \<Rightarrow> string" where
  "echo_speakers w = speakers_system_prompt w @ speakers_user_message w (echo_theme w)"

definition echo_schedule :: "'c workflow \<Rightarrow> string" where
  "echo_schedule w =
     schedule_system_prompt w @ schedule_user_message w (echo_theme w) (echo_speakers w)"

definition echo_logistics :: "'c workflow \<Rightarrow> string" where
  "echo_logistics w =
     logistics_system_prompt @ logistics_user_message (echo_schedule w) (echo_theme w)"

definition echo_marketing :: "'c workflow \<Rightarrow> string" where
  "echo_marketing w =
     marketing_system_prompt @ marketing_user_message (echo_theme w) (echo_schedule w)"

definition demo_shared_config :: shared_config where
  "demo_shared_config =
     \<lparr>validate_config = True, shared_API_KEY = ''key'',
      shared_API_BASE = ''https://api.example/v1'', USE_GROQ = False,
      shared_OPENAI_MODEL = ''gpt-4o-mini''\<rparr>"

text \<open>Two crews: one returns a plan, the other a different plan.\<close>

definition plan_a :: kickoff where
  "plan_a crew inp = Inr ''plan A''"

definition plan_b :: kickoff where
  "plan_b crew inp = Inr ''plan B''"


text \<open>\<open>int\<close> on the strings used below: any other string is taken as no integer.\<close>

definition demo_int :: "string \<Rightarrow> int option" where
  "demo_int s = (if s = ''2'' then Some 2 else if s = ''3'' then Some 3 else None)"

section \<open>The shape of a run\<close>

lemma same_params_refl [simp]: "same_params w w"
  by (simp add: same_params_def)

lemmas prompt_defs = mk_request_def theme_system_prompt_def
  theme_user_message_def speakers_system_prompt_def speakers_user_message_def
  schedule_system_prompt_def schedule_user_message_def

lemma generate_cases:
  assumes "generate cfg create key sp um w wd = (r, w', wd')"
  shows "same_params w w' \<and>
       ((\<exists>e. r = Inl e \<and> outputs w' = outputs w \<and>
            wd' = wd\<lparr>history := history wd @ [Issued key (mk_request cfg w sp um), Raised key e]\<rparr>)
       \<or> (\<exists>v. r = Inr () \<and> outputs w' = dict_set (outputs w) key v \<and>
            wd' = wd\<lparr>history := history wd @ [Issued key (mk_request cfg w sp um), Stored key v]\<rparr>))"
  using assms
  by (auto simp: generate_def Let_def same_params_def split: prod.splits sum.splits)

lemma dict_simps:
  "dict_get [] k = Inl (KeyError k)"
  "dict_get ((k', v) # d) k = (if k' = k then Inr v else dict_get d k)"
  "dict_set [] k v = [(k, v)]"
  "dict_set ((k', v') # d) k v = (if k' = k then (k, v) # d else (k', v') # dict_set d k v)"
  by (auto simp: dict_get_def dict_set_def)

lemma step_theme:
  assumes "phase_theme cfg create w1 wd1 = res"
    and "same_params w w1" and "outputs w1 = []" and "wd1 = wd\<lparr>history := h\<rparr>"
  shows "phase_post cfg w wd h [] res"
proof -
  obtain r w' wd' where res: "res = (r, w', wd')"
    by (metis prod_cases3)
  show ?thesis
    using generate_cases [OF assms(1) [unfolded phase_theme_def res]] assms(2-)
    by (auto simp: res phase_post_def dict_simps stage_names_def prompt_defs
        same_params_def)
qed

lemma step_speakers:
  assumes "phase_speakers cfg create w1 wd1 = res"
    and "same_params w w1" and "outputs w1 = [(''theme'', t)]" and "wd1 = wd\<lparr>history := h\<rparr>"
  shows "phase_post cfg w wd h [t] res"
proof -
  obtain r w' wd' where res: "res = (r, w', wd')"
    by (metis prod_cases3)
  from assms have g: "generate cfg create ''speakers'' (speakers_system_prompt w1)
      (speakers_user_message w1 t) w1 wd1 = (r, w', wd')"
    by (simp add: phase_speakers_def dict_simps res)
  show ?thesis
    using generate_cases [OF g] assms(2-)
    by (auto simp: res phase_post_def dict_simps stage_names_def prompt_defs
        same_params_def)
qed


lemma step_schedule:
  assumes "phase_schedule cfg create w1 wd1 = res"
    and "same_params w w1" and "outputs w1 = [(''theme'', t), (''speakers'', sp)]"
    and "wd1 = wd\<lparr>history := h\<rparr>"
  shows "phase_post cfg w wd h [t, sp] res"
proof -
  obtain r w' wd' where res: "res = (r, w', wd')"
    by (metis prod_cases3)
  from assms have g: "generate cfg create ''schedule'' (schedule_system_prompt w1)
      (schedule_user_message w1 t sp) w1 wd1 = (r, w', wd')"
    by (simp add: phase_schedule_def dict_simps res)
  show ?thesis
    using generate_cases [OF g] assms(2-)
    by (auto simp: res phase_post_def dict_simps stage_names_def prompt_defs
        same_params_def)
qed

lemma step_logistics:
  assumes "phase_logistics cfg create w1 wd1 = res"
    and "same_params w w1"
    and "outputs w1 = [(''theme'', t), (''speakers'', sp), (''schedule'', sc)]"
    and "wd1 = wd\<lparr>history := h\<rparr>"
  shows "phase_post cfg w wd h [t, sp, sc] res"
proof -
  obtain r w' wd' where res: "res = (r, w', wd')"
    by (metis prod_cases3)
  from assms have g: "generate cfg create ''logistics'' logistics_system_prompt
      (logistics_user_message sc t) w1 wd1 = (r, w', wd')"
    by (simp add: phase_logistics_def dict_simps res)
  show ?thesis
    using generate_cases [OF g] assms(2-)
    by (auto simp: res phase_post_def dict_simps stage_names_def mk_request_def
        same_params_def)
qed

lemma step_marketing:
  assumes "phase_marketing cfg create w1 wd1 = res"
    and "same_params w w1"
    and "outputs w1 = [(''theme'', t), (''speakers'', sp), (''schedule'', sc), (''logistics'', lg)]"
    and "wd1 = wd\<lparr>history := h\<rparr>"
  shows "phase_post cfg w wd h [t, sp, sc, lg] res"
proof -
  obtain r w' wd' where res: "res = (r, w', wd')"
    by (metis prod_cases3)
  from assms have g: "generate cfg create ''marketing'' marketing_system_prompt
      (marketing_user_message t sc) w1 wd1 = (r, w', wd')"
    by (simp add: phase_marketing_def dict_simps res)
  show ?thesis
    using generate_cases [OF g] assms(2-)
    by (auto simp: res phase_post_def dict_simps stage_names_def mk_request_def
        same_params_def)
qed

lemma trace_from_snoc:
  "trace_from cfg w pre (vs @ [v]) =
     trace_from cfg w pre vs @
     [Issued (next_key (pre @ vs)) (request_for cfg w (pre @ vs)),
      Stored (next_key (pre @ vs)) v]"
  by (induction vs arbitrary: pre) simp_all

lemma trace_snoc:
  "trace cfg w (vs @ [v]) =
     trace cfg w vs @ [Issued (next_key vs) (request_for cfg w vs), Stored (next_key vs) v]"
  using trace_from_snoc [of cfg w "[]" vs v] by (simp add: trace_def)

lemma trace_Nil [simp]: "trace cfg w [] = []"
  by (simp add: trace_def)

lemma progress_step:
  assumes p: "progress cfg w wd n res"
    and f: "\<And>w1 vs. length vs = n \<Longrightarrow> same_params w w1 \<Longrightarrow> outputs w1 = zip stage_names vs \<Longrightarrow>
              phase_post cfg w wd (history wd @ trace cfg w vs) vs
                (f w1 (wd\<lparr>history := history wd @ trace cfg w vs\<rparr>))"
    and n: "n < 5"
  shows "progress cfg w wd (Suc n) (and_then res f)"
proof -
  obtain r w1 wd1 where res: "res = (r, w1, wd1)"
    by (metis prod_cases3)
  show ?thesis
  proof (cases r)
    case (Inl e)
    with p res show ?thesis
      by (auto simp: progress_def and_then_def)
  next
    case (Inr u)
    with p res obtain vs where vs: "same_params w w1" "outputs w1 = zip stage_names vs"
      "length vs = n" "wd1 = wd\<lparr>history := history wd @ trace cfg w vs\<rparr>"
      by (auto simp: progress_def)
    have a: "and_then res f = f w1 wd1"
      by (simp add: and_then_def res Inr)
    obtain r' w' wd' where r': "f w1 wd1 = (r', w', wd')"
      by (metis prod_cases3)
    from f [OF vs(3) vs(1) vs(2)] r' vs(4)
    have post: "phase_post cfg w wd (history wd @ trace cfg w vs) vs (r', w', wd')"
      by simp
    then consider
      (fail) e where "r' = Inl e" "same_params w w'" "outputs w' = zip stage_names vs"
        "wd' = wd\<lparr>history := (history wd @ trace cfg w vs) @
           [Issued (next_key vs) (request_for cfg w vs), Raised (next_key vs) e]\<rparr>"
    | (ok) v where "r' = Inr ()" "same_params w w'" "outputs w' = zip stage_names (vs @ [v])"
        "wd' = wd\<lparr>history := (history wd @ trace cfg w vs) @
           [Issued (next_key vs) (request_for cfg w vs), Stored (next_key vs) v]\<rparr>"
      by (auto simp: phase_post_def)
    then show ?thesis
    proof cases
      case fail
      have "\<exists>vs'. outputs w' = zip stage_names vs' \<and> length vs' < Suc n \<and>
          wd' = wd\<lparr>history := history wd @ trace cfg w vs' @
            [Issued (next_key vs') (request_for cfg w vs'), Raised (next_key vs') e]\<rparr>"
        using fail vs(3) by (intro exI [of _ vs]) simp
      with fail show ?thesis
        by (simp add: progress_def a r')
    next
      case ok
      have "\<exists>vs'. outputs w' = zip stage_names vs' \<and> length vs' = Suc n \<and>
          wd' = wd\<lparr>history := history wd @ trace cfg w vs'\<rparr>"
        using ok vs(3) by (intro exI [of _ "vs @ [v]"]) (simp add: trace_snoc)
      with ok show ?thesis
        by (simp add: progress_def a r')
    qed
  qed
qed

lemma progress_theme:
  assumes "outputs w = []"
  shows "progress cfg w wd 1 (phase_theme cfg create w wd)"
proof -
  have "wd = wd\<lparr>history := history wd\<rparr>"
    by simp
  with assms have "phase_post cfg w wd (history wd) [] (phase_theme cfg create w wd)"
    by (intro step_theme [where ?w1.0 = w and ?wd1.0 = wd]) simp_all
  then consider
    (fail) e w' where "phase_theme cfg create w wd =
        (Inl e, w', wd\<lparr>history := history wd @
           [Issued (next_key []) (request_for cfg w []), Raised (next_key []) e]\<rparr>)"
      "same_params w w'" "outputs w' = zip stage_names []"
  | (ok) v w' where "phase_theme cfg create w wd =
        (Inr (), w', wd\<lparr>history := history wd @
           [Issued (next_key []) (request_for cfg w []), Stored (next_key []) v]\<rparr>)"
      "same_params w w'" "outputs w' = zip stage_names [v]"
    by (cases "phase_theme cfg create w wd") (auto simp: phase_post_def)
  then show ?thesis
  proof cases
    case fail
    then show ?thesis
      by (auto simp: progress_def intro!: exI [of _ "[]"])
  next
    case ok
    then show ?thesis
      by (auto simp: progress_def trace_def intro!: exI [of _ "[v]"])
  qed
qed

lemma length_1: "length vs = 1 \<Longrightarrow> \<exists>a. vs = [a]"
  by (cases vs) auto

lemma length_2: "length vs = 2 \<Longrightarrow> \<exists>a b. vs = [a, b]"
  by (auto simp: numeral_eq_Suc length_Suc_conv)

lemma length_3: "length vs = 3 \<Longrightarrow> \<exists>a b c. vs = [a, b, c]"
  by (auto simp: numeral_eq_Suc length_Suc_conv)

lemma length_4: "length vs = 4 \<Longrightarrow> \<exists>a b c d. vs = [a, b, c, d]"
  by (auto simp: numeral_eq_Suc length_Suc_conv)

lemma length_5: "length vs = 5 \<Longrightarrow> \<exists>a b c d e. vs = [a, b, c, d, e]"
  by (auto simp: numeral_eq_Suc length_Suc_conv)

lemma pipeline_progress:
  assumes "outputs w = []"
  shows "progress cfg w wd 5 (pipeline cfg create w wd)"
proof -
  note p1 = progress_theme [OF assms, of cfg wd create]
  have "progress cfg w wd (Suc 1)
      (and_then (phase_theme cfg create w wd) (phase_speakers cfg create))"
  proof (rule progress_step [OF p1])
    fix w1 vs
    assume a: "length vs = 1" "same_params w w1" "outputs w1 = zip stage_names vs"
    then obtain t where "vs = [t]"
      using length_1 by blast
    with a show "phase_post cfg w wd (history wd @ trace cfg w vs) vs
        (phase_speakers cfg create w1 (wd\<lparr>history := history wd @ trace cfg w vs\<rparr>))"
      by (simp add: stage_names_def step_speakers [OF refl])
  qed simp
  then have p2: "progress cfg w wd 2
      (and_then (phase_theme cfg create w wd) (phase_speakers cfg create))"
    by (simp add: numeral_2_eq_2)
  have "progress cfg w wd (Suc 2)
      (and_then (and_then (phase_theme cfg create w wd) (phase_speakers cfg create))
         (phase_schedule cfg create))"
  proof (rule progress_step [OF p2])
    fix w1 vs
    assume a: "length vs = 2" "same_params w w1" "outputs w1 = zip stage_names vs"
    then obtain t sp where "vs = [t, sp]"
      using length_2 by blast
    with a show "phase_post cfg w wd (history wd @ trace cfg w vs) vs
        (phase_schedule cfg create w1 (wd\<lparr>history := history wd @ trace cfg w vs\<rparr>))"
      by (simp add: stage_names_def step_schedule [OF refl])
  qed simp
  then have p3: "progress cfg w wd 3
      (and_then (and_then (phase_theme cfg create w wd) (phase_speakers cfg create))
         (phase_schedule cfg create))"
    by simp
  have "progress cfg w wd (Suc 3)
      (and_then (and_then (and_then (phase_theme cfg create w wd) (phase_speakers cfg create))
         (phase_schedule cfg create)) (phase_logistics cfg create))"
  proof (rule progress_step [OF p3])
    fix w1 vs
    assume a: "length vs = 3" "same_params w w1" "outputs w1 = zip stage_names vs"
    then obtain t sp sc where "vs = [t, sp, sc]"
      using length_3 by blast
    with a show "phase_post cfg w wd (history wd @ trace cfg w vs) vs
        (phase_logistics cfg create w1 (wd\<lparr>history := history wd @ trace cfg w vs\<rparr>))"
      by (simp add: stage_names_def step_logistics [OF refl])
  qed simp
  then have p4: "progress cfg w wd 4
      (and_then (and_then (and_then (phase_theme cfg create w wd) (phase_speakers cfg create))
         (phase_schedule cfg create)) (phase_logistics cfg create))"
    by simp
  have "progress cfg w wd (Suc 4) (pipeline cfg create w wd)"
    unfolding pipeline_def
  proof (rule progress_step [OF p4])
    fix w1 vs
    assume a: "length vs = 4" "same_params w w1" "outputs w1 = zip stage_names vs"
    then obtain t sp sc lg where "vs = [t, sp, sc, lg]"
      using length_4 by blast
    with a show "phase_post cfg w wd (history wd @ trace cfg w vs) vs
        (phase_marketing cfg create w1 (wd\<lparr>history := history wd @ trace cfg w vs\<rparr>))"
      by (simp add: stage_names_def step_marketing [OF refl])
  qed simp
  then show ?thesis
    by simp
qed

lemma shape_le5:
  assumes "length vs \<le> 5"
  obtains "vs = []" | a where "vs = [a]" | a b where "vs = [a, b]"
  | a b c where "vs = [a, b, c]" | a b c d where "vs = [a, b, c, d]"
  | a b c d e where "vs = [a, b, c, d, e]"
proof -
  from assms consider "length vs = 0" | "length vs = 1" | "length vs = 2" | "length vs = 3"
    | "length vs = 4" | "length vs = 5"
    by linarith
  then show ?thesis
  proof cases
    case 1 then show ?thesis using that(1) by simp
  next
    case 2 then show ?thesis using that(2) length_1 by blast
  next
    case 3 then show ?thesis using that(3) length_2 by blast
  next
    case 4 then show ?thesis using that(4) length_3 by blast
  next
    case 5 then show ?thesis using that(5) length_4 by blast
  next
    case 6 then show ?thesis using that(6) length_5 by blast
  qed
qed

lemma trace_facts:
  assumes "length vs \<le> 5"
  shows "map tag_of (trace cfg w vs) = completed (length vs)"
    and "issued (trace cfg w vs) = take (length vs) stage_names"
    and "stored (trace cfg w vs) = take (length vs) stage_names"
    and "stored_values (trace cfg w vs) = vs"
    and "map fst (zip stage_names vs) = take (length vs) stage_names"
    and "length vs < 5 \<Longrightarrow> next_key vs = stage_names ! length vs"
  using assms
  by (cases vs rule: shape_le5; simp add: trace_def completed_def stage_names_def)+

lemma print_sections_complete:
  "print_sections (zip stage_names [a, b, c, d, e]) sections = Inr ()"
  by (simp add: sections_def stage_names_def dict_simps)

lemma write_sections_complete:
  "fst (write_sections (zip stage_names [a, b, c, d, e]) sections acc) = None"
  by (simp add: sections_def stage_names_def dict_simps Let_def)

lemma print_summary_history:
  "history (snd (print_summary w wd)) = history wd"
  unfolding print_summary_def now_def Let_def
  by (simp split: sum.splits prod.splits option.splits)

lemma print_summary_complete:
  assumes "outputs w = zip stage_names [a, b, c, d, e]"
  shows "print_summary w wd =
     (if writable wd (output_file (clock wd (reads wd)))
      then (Inr (),
            wd\<lparr>reads := reads wd + 3,
               files := (files wd)(output_file (clock wd (reads wd)) \<mapsto>
                          snd (document w (clock wd (Suc (reads wd)))))\<rparr>)
      else (Inl (OSError (output_file (clock wd (reads wd)))), wd\<lparr>reads := Suc (reads wd)\<rparr>))"
proof -
  obtain body where t: "document w (clock wd (Suc (reads wd))) = (None, body)"
    using assms by (metis document_def write_sections_complete prod.collapse)
  from assms have p: "print_sections (outputs w) sections = Inr ()"
    by (simp add: print_sections_complete)
  show ?thesis
    unfolding print_summary_def now_def by (simp add: p t)
qed

lemma run_unfold:
  "run cfg create w wd =
     and_then (pipeline cfg create w (snd (now wd)))
       (\<lambda>w wd. case print_summary w wd of (r, wd') \<Rightarrow> (r, w, wd'))"
  by (simp add: run_def pipeline_def)

lemma run_cases [consumes 2, case_names failed summary]:
  assumes "run cfg create w wd = (r, w', wd')" and "outputs w = []"
  obtains (failed) vs e where "length vs < 5" "r = Inl e" "same_params w w'"
      "outputs w' = zip stage_names vs"
      "wd' = wd\<lparr>reads := Suc (reads wd),
                 history := history wd @ trace cfg w vs @
                   [Issued (next_key vs) (request_for cfg w vs), Raised (next_key vs) e]\<rparr>"
  | (summary) a b c d e where "same_params w w'"
      "outputs w' = zip stage_names [a, b, c, d, e]"
      "(r, wd') = print_summary w'
         (wd\<lparr>reads := Suc (reads wd), history := history wd @ trace cfg w [a, b, c, d, e]\<rparr>)"
proof -
  obtain r1 w1 wd1 where p: "pipeline cfg create w (snd (now wd)) = (r1, w1, wd1)"
    by (metis prod_cases3)
  from pipeline_progress [OF assms(2), of cfg "snd (now wd)" create] p
  obtain vs where vs: "same_params w w1" "outputs w1 = zip stage_names vs"
    and alt: "(r1 = Inr () \<and> length vs = 5 \<and>
        wd1 = (snd (now wd))\<lparr>history := history (snd (now wd)) @ trace cfg w vs\<rparr>)
      \<or> (\<exists>e. r1 = Inl e \<and> length vs < 5 \<and>
        wd1 = (snd (now wd))\<lparr>history := history (snd (now wd)) @ trace cfg w vs @
          [Issued (next_key vs) (request_for cfg w vs), Raised (next_key vs) e]\<rparr>)"
    by (auto simp: progress_def)
  from alt show ?thesis
  proof
    assume a: "r1 = Inr () \<and> length vs = 5 \<and>
        wd1 = (snd (now wd))\<lparr>history := history (snd (now wd)) @ trace cfg w vs\<rparr>"
    then obtain a1 b c d e where s: "vs = [a1, b, c, d, e]"
      using length_5 by blast
    from assms(1) a p have "(r, w', wd') = (case print_summary w1 wd1 of (r, wd') \<Rightarrow> (r, w1, wd'))"
      by (simp add: run_unfold and_then_def)
    then have "w' = w1" "(r, wd') = print_summary w1 wd1"
      by (auto split: prod.splits)
    with a vs s show ?thesis
      by (intro summary [of a1 b c d e]) (simp_all add: now_def)
  next
    assume "\<exists>e. r1 = Inl e \<and> length vs < 5 \<and>
        wd1 = (snd (now wd))\<lparr>history := history (snd (now wd)) @ trace cfg w vs @
          [Issued (next_key vs) (request_for cfg w vs), Raised (next_key vs) e]\<rparr>"
    then obtain e where e: "r1 = Inl e" "length vs < 5"
        "wd1 = (snd (now wd))\<lparr>history := history (snd (now wd)) @ trace cfg w vs @
          [Issued (next_key vs) (request_for cfg w vs), Raised (next_key vs) e]\<rparr>"
      by blast
    from assms(1) e p have "r = Inl e" "w' = w1" "wd' = wd1"
      by (simp_all add: run_unfold and_then_def)
    with e vs show ?thesis
      by (intro failed [of vs e]) (simp_all add: now_def)
  qed
qed

section \<open>The conference workflow: failure and order\<close>

lemma issued_append [simp]: "issued (xs @ ys) = issued xs @ issued ys"
  by (induction xs rule: issued.induct) simp_all

lemma stored_append [simp]: "stored (xs @ ys) = stored xs @ stored ys"
  by (induction xs rule: stored.induct) simp_all

lemma stored_values_append [simp]:
  "stored_values (xs @ ys) = stored_values xs @ stored_values ys"
  by (induction xs rule: stored_values.induct) simp_all

lemma raised_not_in_trace_from: "Raised s e \<notin> set (trace_from cfg w pre vs)"
  by (induction vs arbitrary: pre) simp_all

lemma raised_not_in_trace: "Raised s e \<notin> set (trace cfg w vs)"
  by (simp add: trace_def raised_not_in_trace_from)

lemma stored_in_trace_from:
  "Stored s v \<in> set (trace_from cfg w pre vs) \<Longrightarrow> v \<in> set vs"
  by (induction vs arbitrary: pre) auto

lemma distinct_stage_names: "distinct stage_names"
  by (simp add: stage_names_def)

lemma length_stage_names [simp]: "length stage_names = 5"
  by (simp add: stage_names_def)

lemmas run_eval = run_def and_then_def phase_theme_def phase_speakers_def phase_schedule_def
  phase_logistics_def phase_marketing_def generate_def dict_simps now_def Let_def
  demo_world_def demo_workflow_def

lemma fail_at_2_raised:
  "Raised ''schedule'' (Exception ''boom'') \<in>
     set (history (snd (snd (run demo_config (fail_at 2) demo_workflow demo_world))))"
  by (simp add: run_eval fail_at_def)

lemma fail_at_0_run:
  "fst (run demo_config (fail_at 0) demo_workflow demo_world) = Inl (Exception ''boom'')"
  "Raised ''theme'' (Exception ''boom'') \<in>
     set (history (snd (snd (run demo_config (fail_at 0) demo_workflow demo_world))))"
  by (simp_all add: run_eval fail_at_def)

lemma fail_at_1_run:
  "fst (run demo_config (fail_at 1) demo_workflow demo_world) = Inl (Exception ''boom'')"
  "Raised ''speakers'' (Exception ''boom'') \<in>
     set (history (snd (snd (run demo_config (fail_at 1) demo_workflow demo_world))))"
  by (simp_all add: run_eval fail_at_def)

text \<open>
  Claim C1, as amended. If the handler of stage \<open>k\<close> (1-indexed) is entered in a run
  started on a fresh workflow, because the generation call of that stage raised \<open>e\<close>,
  then the run ends with that very exception \<open>e\<close>, the calls issued are those of stages
  1 to \<open>k\<close>, one each (no retry, no later stage), the outputs stored are exactly those of
  stages 1 to \<open>k - 1\<close>, and no file is written. The exception is re-raised as it came:
  nothing is attached to it.
\<close>

theorem generation_failure_aborts_run:
  assumes run: "run cfg create w wd = (r, w', wd')"
    and fresh: "outputs w = []" "history wd = []"
    and k: "1 \<le> k" "k \<le> 5"
    and raised: "Raised (stage_names ! (k - 1)) e \<in> set (history wd')"
  shows "r = Inl e \<and> keys (outputs w') = take (k - 1) stage_names \<and>
    stored (history wd') = take (k - 1) stage_names \<and>
    issued (history wd') = take k stage_names \<and> files wd' = files wd"
  using run fresh(1)
proof (cases rule: run_cases)
  case (failed vs e')
  with fresh(2) have h: "history wd' = trace cfg w vs @
      [Issued (next_key vs) (request_for cfg w vs), Raised (next_key vs) e']"
    by simp
  from failed(1) have le: "length vs \<le> 5"
    by simp
  from raised h have "stage_names ! (k - 1) = next_key vs" "e = e'"
    by (auto simp: raised_not_in_trace)
  with failed(1) le have "stage_names ! (k - 1) = stage_names ! length vs"
    by (simp add: trace_facts)
  with k failed(1) have n: "k - 1 = length vs"
    by (simp add: nth_eq_iff_index_eq distinct_stage_names)
  with k have k': "k = Suc (length vs)"
    by simp
  have "take k stage_names = take (length vs) stage_names @ [next_key vs]"
    using failed(1) le by (simp add: k' take_Suc_conv_app_nth trace_facts)
  with failed le n \<open>e = e'\<close> h show ?thesis
    by (simp add: keys_def trace_facts)
next
  case (summary a b c d e')
  have "history wd' = history (snd (r, wd'))"
    by simp
  also have "\<dots> = trace cfg w [a, b, c, d, e']"
    unfolding summary(3) by (simp add: print_summary_history fresh)
  finally have "Raised (stage_names ! (k - 1)) e \<notin> set (history wd')"
    by (simp add: raised_not_in_trace)
  with raised show ?thesis
    by simp
qed

theorem generation_failure_aborts_run_witness:
  "fst (run demo_config (fail_at 2) demo_workflow demo_world) = Inl (Exception ''boom'') \<and>
   keys (outputs (fst (snd (run demo_config (fail_at 2) demo_workflow demo_world)))) =
     [''theme'', ''speakers''] \<and>
   stored (history (snd (snd (run demo_config (fail_at 2) demo_workflow demo_world)))) =
     [''theme'', ''speakers''] \<and>
   issued (history (snd (snd (run demo_config (fail_at 2) demo_workflow demo_world)))) =
     [''theme'', ''speakers'', ''schedule''] \<and>
   files (snd (snd (run demo_config (fail_at 2) demo_workflow demo_world))) = files demo_world"
proof -
  have r: "run demo_config (fail_at 2) demo_workflow demo_world =
      (fst (run demo_config (fail_at 2) demo_workflow demo_world),
       fst (snd (run demo_config (fail_at 2) demo_workflow demo_world)),
       snd (snd (run demo_config (fail_at 2) demo_workflow demo_world)))"
    by simp
  have f: "outputs demo_workflow = []" "history demo_world = []"
    by (simp_all add: demo_workflow_def demo_world_def)
  have k: "(1::nat) \<le> 3" "(3::nat) \<le> 5"
    by simp_all
  have e: "Raised (stage_names ! (3 - 1)) (Exception ''boom'') \<in>
      set (history (snd (snd (run demo_config (fail_at 2) demo_workflow demo_world))))"
    using fail_at_2_raised by (simp add: stage_names_def)
  show ?thesis
    using generation_failure_aborts_run [OF r f k e] by (simp add: stage_names_def)
qed

text \<open>
  Claim C1 as stated fails: the same exception raised at the first stage and at the second
  reaches the caller as the same value, so the error does not name the stage.
\<close>

theorem error_carries_no_stage_name:
  "fst (run demo_config (fail_at 0) demo_workflow demo_world) =
     fst (run demo_config (fail_at 1) demo_workflow demo_world) \<and>
   Raised ''theme'' (Exception ''boom'') \<in>
     set (history (snd (snd (run demo_config (fail_at 0) demo_workflow demo_world)))) \<and>
   Raised ''speakers'' (Exception ''boom'') \<in>
     set (history (snd (snd (run demo_config (fail_at 1) demo_workflow demo_world))))"
  using fail_at_0_run fail_at_1_run by simp

text \<open>
  Claim C5. In every run started on a fresh workflow the history is: call and store of
  stage 1, call and store of stage 2, and so on in pipeline order, either through all five
  stages or up to a call that raised; a successful run went through all five. So no stage
  is skipped or reordered, and the call of a stage follows the store of the one before.
\<close>

theorem stages_run_in_order:
  assumes run: "run cfg create w wd = (r, w', wd')"
    and fresh: "outputs w = []" "history wd = []"
  shows "\<exists>n\<le>5. map tag_of (history wd') =
      completed n @ (if n < 5 then [Call (stage_names ! n), Raise (stage_names ! n)] else []) \<and>
      (r = Inr () \<longrightarrow> n = 5)"
  using run fresh(1)
proof (cases rule: run_cases)
  case (failed vs e')
  with fresh(2) have h: "history wd' = trace cfg w vs @
      [Issued (next_key vs) (request_for cfg w vs), Raised (next_key vs) e']"
    by simp
  from failed(1) have le: "length vs \<le> 5"
    by simp
  show ?thesis
    using failed(1,2) le h by (intro exI [of _ "length vs"]) (simp add: trace_facts)
next
  case (summary a b c d e')
  have "history wd' = history (snd (r, wd'))"
    by simp
  also have "\<dots> = trace cfg w [a, b, c, d, e']"
    unfolding summary(3) by (simp add: print_summary_history fresh)
  finally show ?thesis
    by (intro exI [of _ 5]) (simp add: trace_def completed_def stage_names_def)
qed

theorem stages_run_in_order_witness:
  "outputs demo_workflow = [] \<and> history demo_world = [] \<and>
   (\<exists>n\<le>5. map tag_of (history (snd (snd (run demo_config (fail_at 2) demo_workflow demo_world)))) =
      completed n @ (if n < 5 then [Call (stage_names ! n), Raise (stage_names ! n)] else []) \<and>
      (fst (run demo_config (fail_at 2) demo_workflow demo_world) = Inr () \<longrightarrow> n = 5))"
proof -
  have r: "run demo_config (fail_at 2) demo_workflow demo_world =
      (fst (run demo_config (fail_at 2) demo_workflow demo_world),
       fst (snd (run demo_config (fail_at 2) demo_workflow demo_world)),
       snd (snd (run demo_config (fail_at 2) demo_workflow demo_world)))"
    by simp
  have f: "outputs demo_workflow = []" "history demo_world = []"
    by (simp_all add: demo_workflow_def demo_world_def)
  show ?thesis
    using stages_run_in_order [OF r f] f by simp
qed

section \<open>The conference workflow: what a complete run stores and quotes\<close>

lemma request_text_mk [simp]:
  "request_text (mk_request cfg w system_prompt user_message) = system_prompt @ user_message"
  by (simp add: request_text_def mk_request_def)

lemma sub_here: "sublist v (v @ ys)"
  by (rule sublist_append_rightI)

lemma sub_skip: "sublist v ys \<Longrightarrow> sublist v (xs @ ys)"
  by (metis sublist_append_leftI sublist_order.order_trans)

lemma user_messages_quote:
  "sublist t (pre @ speakers_user_message w t)"
  "sublist t (pre @ schedule_user_message w t sp)"
  "sublist sp (pre @ schedule_user_message w t sp)"
  "sublist sc (pre @ logistics_user_message sc t)"
  "sublist t (pre @ logistics_user_message sc t)"
  "sublist t (pre @ marketing_user_message t sc)"
  "sublist sc (pre @ marketing_user_message t sc)"
  unfolding speakers_user_message_def schedule_user_message_def logistics_user_message_def
    marketing_user_message_def
  by (rule sub_here | rule sub_skip)+

lemma prompt_update [simp]:
  "mk_request cfg (w\<lparr>client := c\<rparr>) = mk_request cfg w"
  "mk_request cfg (w\<lparr>outputs := d\<rparr>) = mk_request cfg w"
  "theme_system_prompt (w\<lparr>client := c\<rparr>) = theme_system_prompt w"
  "theme_system_prompt (w\<lparr>outputs := d\<rparr>) = theme_system_prompt w"
  "theme_user_message (w\<lparr>client := c\<rparr>) = theme_user_message w"
  "theme_user_message (w\<lparr>outputs := d\<rparr>) = theme_user_message w"
  "speakers_system_prompt (w\<lparr>client := c\<rparr>) = speakers_system_prompt w"
  "speakers_system_prompt (w\<lparr>outputs := d\<rparr>) = speakers_system_prompt w"
  "speakers_user_message (w\<lparr>client := c\<rparr>) = speakers_user_message w"
  "speakers_user_message (w\<lparr>outputs := d\<rparr>) = speakers_user_message w"
  "schedule_system_prompt (w\<lparr>client := c\<rparr>) = schedule_system_prompt w"
  "schedule_system_prompt (w\<lparr>outputs := d\<rparr>) = schedule_system_prompt w"
  "schedule_user_message (w\<lparr>client := c\<rparr>) = schedule_user_message w"
  "schedule_user_message (w\<lparr>outputs := d\<rparr>) = schedule_user_message w"
  "header (w\<lparr>client := c\<rparr>) = header w"
  "header (w\<lparr>outputs := d\<rparr>) = header w"
  unfolding prompt_defs header_def fun_eq_iff by simp_all

lemma demo_workflow_fields [simp]:
  "outputs demo_workflow = []" "client demo_workflow = 0"
  by (simp_all add: demo_workflow_def)

lemmas run_sym = run_def and_then_def phase_theme_def phase_speakers_def phase_schedule_def
  phase_logistics_def phase_marketing_def generate_def dict_simps now_def Let_def
  demo_world_def print_summary_def sections_def document_def

lemmas echo_defs = echo_theme_def echo_speakers_def echo_schedule_def echo_logistics_def
  echo_marketing_def

text \<open>The five phases with the echoing service, for every configuration and parameters.\<close>

lemma echo_pipeline:
  assumes "outputs w = []"
  shows "pipeline cfg echo w wd =
     (Inr (),
      w\<lparr>client := client w + 5,
        outputs := zip stage_names [echo_theme w, echo_speakers w, echo_schedule w,
                     echo_logistics w, echo_marketing w]\<rparr>,
      wd\<lparr>history := history wd @
           trace cfg w [echo_theme w, echo_speakers w, echo_schedule w,
             echo_logistics w, echo_marketing w]\<rparr>)"
  using assms
  by (simp add: pipeline_def and_then_def phase_theme_def phase_speakers_def
      phase_schedule_def phase_logistics_def phase_marketing_def generate_def dict_simps
      Let_def echo_def echo_defs trace_def stage_names_def)

lemma echo_run_complete:
  assumes run: "run cfg echo w wd = (r, w', wd')" and fresh: "outputs w = []"
  shows "outputs w' = zip stage_names [echo_theme w, echo_speakers w, echo_schedule w,
                     echo_logistics w, echo_marketing w]"
    and "history wd' = history wd @
           trace cfg w [echo_theme w, echo_speakers w, echo_schedule w,
             echo_logistics w, echo_marketing w]"
proof -
  let ?W = "w\<lparr>client := client w + 5,
        outputs := zip stage_names [echo_theme w, echo_speakers w, echo_schedule w,
                     echo_logistics w, echo_marketing w]\<rparr>"
  let ?WD = "(snd (now wd))\<lparr>history := history (snd (now wd)) @
           trace cfg w [echo_theme w, echo_speakers w, echo_schedule w,
             echo_logistics w, echo_marketing w]\<rparr>"
  have "(r, w', wd') = (case print_summary ?W ?WD of (r, wd') \<Rightarrow> (r, ?W, wd'))"
    using run by (simp add: run_unfold echo_pipeline [OF fresh] and_then_def)
  then have w: "w' = ?W" and wd: "wd' = snd (print_summary ?W ?WD)"
    by (auto split: prod.splits)
  show "outputs w' = zip stage_names [echo_theme w, echo_speakers w, echo_schedule w,
                     echo_logistics w, echo_marketing w]"
    by (simp add: w)
  show "history wd' = history wd @
           trace cfg w [echo_theme w, echo_speakers w, echo_schedule w,
             echo_logistics w, echo_marketing w]"
    by (simp add: wd print_summary_history now_def)
qed

text \<open>The echoed texts nest: each one contains the texts its template names.\<close>

lemma echo_nesting:
  "sublist (echo_theme w) (echo_speakers w)"
  "sublist (echo_theme w) (echo_schedule w)"
  "sublist (echo_speakers w) (echo_schedule w)"
  "sublist (echo_theme w) (echo_logistics w)"
  "sublist (echo_schedule w) (echo_logistics w)"
  "sublist (echo_speakers w) (echo_logistics w)"
  "sublist (echo_theme w) (echo_marketing w)"
  "sublist (echo_schedule w) (echo_marketing w)"
  "sublist (echo_speakers w) (echo_marketing w)"
proof -
  show sp: "sublist (echo_speakers w) (echo_schedule w)"
    unfolding echo_schedule_def by (rule user_messages_quote)
  show sl: "sublist (echo_schedule w) (echo_logistics w)"
    unfolding echo_logistics_def by (rule user_messages_quote)
  show sm: "sublist (echo_schedule w) (echo_marketing w)"
    unfolding echo_marketing_def by (rule user_messages_quote)
  show "sublist (echo_theme w) (echo_speakers w)"
    unfolding echo_speakers_def by (rule user_messages_quote)
  show "sublist (echo_theme w) (echo_schedule w)"
    unfolding echo_schedule_def by (rule user_messages_quote)
  show "sublist (echo_theme w) (echo_logistics w)"
    unfolding echo_logistics_def by (rule user_messages_quote)
  show "sublist (echo_theme w) (echo_marketing w)"
    unfolding echo_marketing_def by (rule user_messages_quote)
  show "sublist (echo_speakers w) (echo_logistics w)"
    using sp sl by (rule sublist_order.order_trans)
  show "sublist (echo_speakers w) (echo_marketing w)"
    using sp sm by (rule sublist_order.order_trans)
qed

lemma echo_run:
  "fst (run demo_config echo demo_workflow demo_world) = Inr ()"
  "map_option request_text
     (issued_request ''marketing''
        (history (snd (snd (run demo_config echo demo_workflow demo_world))))) =
     Some (echo_marketing demo_workflow)"
  "map_of (outputs (fst (snd (run demo_config echo demo_workflow demo_world)))) ''logistics'' =
     Some (echo_logistics demo_workflow)"
  by (simp_all add: run_sym echo_def echo_defs)

lemma W_theme: "CHR ''W'' \<notin> set (echo_theme demo_workflow)"
  by (simp add: echo_theme_def theme_system_prompt_def theme_user_message_def
      demo_workflow_def CONFERENCE_NAME_def CONFERENCE_TYPE_def DURATION_def nl_def)

lemma W_speakers: "CHR ''W'' \<notin> set (echo_speakers demo_workflow)"
  using W_theme
  by (simp add: echo_speakers_def speakers_system_prompt_def speakers_user_message_def
      demo_workflow_def CONFERENCE_NAME_def CONFERENCE_TYPE_def DURATION_def nl_def)

lemma W_schedule: "CHR ''W'' \<notin> set (echo_schedule demo_workflow)"
  using W_theme W_speakers
  by (simp add: echo_schedule_def schedule_system_prompt_def schedule_user_message_def
      demo_workflow_def CONFERENCE_NAME_def CONFERENCE_TYPE_def DURATION_def nl_def)

lemma W_marketing: "CHR ''W'' \<notin> set (echo_marketing demo_workflow)"
  using W_theme W_schedule
  by (simp add: echo_marketing_def marketing_system_prompt_def
      marketing_user_message_def nl_def)

lemma W_logistics: "CHR ''W'' \<in> set (echo_logistics demo_workflow)"
  by (simp add: echo_logistics_def logistics_system_prompt_def nl_def)

text \<open>
  With any generation service, a complete run from a fresh workflow stores exactly one
  output per stage, keyed by stage name in pipeline order, and the request text of a
  stage contains verbatim the outputs its template names: speakers quotes theme; schedule
  quotes theme and speakers; logistics quotes schedule and theme; marketing quotes theme
  and schedule.
\<close>

lemma complete_run_quotes_named_outputs:
  assumes run: "run cfg create w wd = (Inr (), w', wd')"
    and fresh: "outputs w = []" "history wd = []"
  shows "keys (outputs w') = stage_names \<and> stored (history wd') = stage_names \<and>
    issued (history wd') = stage_names \<and>
    quotes (run cfg create w wd) ''speakers'' ''theme'' \<and>
    quotes (run cfg create w wd) ''schedule'' ''theme'' \<and>
    quotes (run cfg create w wd) ''schedule'' ''speakers'' \<and>
    quotes (run cfg create w wd) ''logistics'' ''schedule'' \<and>
    quotes (run cfg create w wd) ''logistics'' ''theme'' \<and>
    quotes (run cfg create w wd) ''marketing'' ''theme'' \<and>
    quotes (run cfg create w wd) ''marketing'' ''schedule''"
  using run fresh(1)
proof (cases rule: run_cases)
  case (failed vs e)
  then show ?thesis
    by simp
next
  case (summary a b c d e)
  have "history wd' = history (snd (Inr () :: error + unit, wd'))"
    by simp
  also have "\<dots> = trace cfg w [a, b, c, d, e]"
    unfolding summary(3) by (simp add: print_summary_history fresh)
  finally have h: "history wd' = trace cfg w [a, b, c, d, e]" .
  have o: "outputs w' = [(''theme'', a), (''speakers'', b), (''schedule'', c),
      (''logistics'', d), (''marketing'', e)]"
    using summary(2) by (simp add: stage_names_def)
  show ?thesis
    unfolding quotes_def run
    by (simp add: h o keys_def trace_def stage_names_def user_messages_quote)
qed

text \<open>
  Claim C2, as amended. For every configuration and parameters, a complete run from a
  fresh workflow with the service that echoes its input stores exactly one output per
  stage, keyed by stage name in pipeline order; the output stored for a stage is the text
  the service returns for the request of that stage; and the request text of each stage
  contains verbatim the output of every stage before it, with one pair left out: the
  request of marketing and the output of logistics.
\<close>

theorem echo_run_outputs_and_quotes:
  assumes run: "run cfg echo w wd = (Inr (), w', wd')"
    and fresh: "outputs w = []" "history wd = []"
  shows "keys (outputs w') = stage_names \<and> stored (history wd') = stage_names \<and>
    issued (history wd') = stage_names \<and>
    returned echo c (run cfg echo w wd) ''theme'' \<and>
    returned echo c (run cfg echo w wd) ''speakers'' \<and>
    returned echo c (run cfg echo w wd) ''schedule'' \<and>
    returned echo c (run cfg echo w wd) ''logistics'' \<and>
    returned echo c (run cfg echo w wd) ''marketing'' \<and>
    quotes (run cfg echo w wd) ''speakers'' ''theme'' \<and>
    quotes (run cfg echo w wd) ''schedule'' ''theme'' \<and>
    quotes (run cfg echo w wd) ''schedule'' ''speakers'' \<and>
    quotes (run cfg echo w wd) ''logistics'' ''theme'' \<and>
    quotes (run cfg echo w wd) ''logistics'' ''speakers'' \<and>
    quotes (run cfg echo w wd) ''logistics'' ''schedule'' \<and>
    quotes (run cfg echo w wd) ''marketing'' ''theme'' \<and>
    quotes (run cfg echo w wd) ''marketing'' ''speakers'' \<and>
    quotes (run cfg echo w wd) ''marketing'' ''schedule''"
proof -
  note o = echo_run_complete(1) [OF run fresh(1)]
  have h: "history wd' = trace cfg w [echo_theme w, echo_speakers w, echo_schedule w,
             echo_logistics w, echo_marketing w]"
    using echo_run_complete(2) [OF run fresh(1)] fresh(2) by simp
  have shape: "keys (outputs w') = stage_names" "stored (history wd') = stage_names"
    "issued (history wd') = stage_names"
    using complete_run_quotes_named_outputs [OF run fresh] by simp_all
  have ret: "returned echo c (run cfg echo w wd) s"
    if "s \<in> set stage_names" for s
    using that unfolding returned_def run
    by (auto simp: h o trace_def stage_names_def echo_def echo_defs)
  have q: "quotes (run cfg echo w wd) ''speakers'' ''theme''"
    "quotes (run cfg echo w wd) ''schedule'' ''theme''"
    "quotes (run cfg echo w wd) ''schedule'' ''speakers''"
    "quotes (run cfg echo w wd) ''logistics'' ''theme''"
    "quotes (run cfg echo w wd) ''logistics'' ''speakers''"
    "quotes (run cfg echo w wd) ''logistics'' ''schedule''"
    "quotes (run cfg echo w wd) ''marketing'' ''theme''"
    "quotes (run cfg echo w wd) ''marketing'' ''speakers''"
    "quotes (run cfg echo w wd) ''marketing'' ''schedule''"
    unfolding quotes_def run
    using echo_nesting [of w]
    by (simp_all add: h o trace_def stage_names_def echo_defs)
  show ?thesis
    using shape q ret by (simp add: stage_names_def)
qed

theorem echo_run_outputs_and_quotes_witness:
  "keys (outputs (fst (snd (run demo_config echo demo_workflow demo_world)))) = stage_names \<and>
   stored (history (snd (snd (run demo_config echo demo_workflow demo_world)))) = stage_names \<and>
   issued (history (snd (snd (run demo_config echo demo_workflow demo_world)))) = stage_names \<and>
   returned echo 0 (run demo_config echo demo_workflow demo_world) ''theme'' \<and>
   returned echo 0 (run demo_config echo demo_workflow demo_world) ''speakers'' \<and>
   returned echo 0 (run demo_config echo demo_workflow demo_world) ''schedule'' \<and>
   returned echo 0 (run demo_config echo demo_workflow demo_world) ''logistics'' \<and>
   returned echo 0 (run demo_config echo demo_workflow demo_world) ''marketing'' \<and>
   quotes (run demo_config echo demo_workflow demo_world) ''speakers'' ''theme'' \<and>
   quotes (run demo_config echo demo_workflow demo_world) ''schedule'' ''theme'' \<and>
   quotes (run demo_config echo demo_workflow demo_world) ''schedule'' ''speakers'' \<and>
   quotes (run demo_config echo demo_workflow demo_world) ''logistics'' ''theme'' \<and>
   quotes (run demo_config echo demo_workflow demo_world) ''logistics'' ''speakers'' \<and>
   quotes (run demo_config echo demo_workflow demo_world) ''logistics'' ''schedule'' \<and>
   quotes (run demo_config echo demo_workflow demo_world) ''marketing'' ''theme'' \<and>
   quotes (run demo_config echo demo_workflow demo_world) ''marketing'' ''speakers'' \<and>
   quotes (run demo_config echo demo_workflow demo_world) ''marketing'' ''schedule''"
proof -
  have r: "run demo_config echo demo_workflow demo_world =
      (Inr (), fst (snd (run demo_config echo demo_workflow demo_world)),
       snd (snd (run demo_config echo demo_workflow demo_world)))"
    using echo_run(1) by (metis prod.collapse)
  have f: "outputs demo_workflow = []" "history demo_world = []"
    by (simp_all add: demo_world_def)
  show ?thesis
    by (rule echo_run_outputs_and_quotes [OF r f])
qed

text \<open>
  Claim C2 as stated fails: with the service that echoes the text of each request and the
  parameters of the script, the run completes and the request of the marketing stage does
  not contain the output of the logistics stage (the template of marketing names theme
  and schedule only).
\<close>

theorem echo_run_does_not_quote_every_output:
  "fst (run demo_config echo demo_workflow demo_world) = Inr () \<and>
   \<not> quotes (run demo_config echo demo_workflow demo_world) ''marketing'' ''logistics''"
proof -
  have "\<not> sublist (echo_logistics demo_workflow) (echo_marketing demo_workflow)"
    using W_logistics W_marketing set_mono_sublist by blast
  moreover obtain req where
    "issued_request ''marketing''
       (history (snd (snd (run demo_config echo demo_workflow demo_world)))) = Some req"
    "request_text req = echo_marketing demo_workflow"
    using echo_run(2) by auto
  ultimately show ?thesis
    by (simp add: quotes_def echo_run)
qed

section \<open>The conference workflow: prompts read earlier outputs, stores are final\<close>

lemma follows_trace_from:
  "follows cfg w pre (trace_from cfg w pre vs @ h) = follows cfg w (pre @ vs) h"
  by (induction vs arbitrary: pre) simp_all

lemma follows_split:
  "follows cfg w vs (pre @ Issued s req # post) \<Longrightarrow>
     s = next_key (vs @ stored_values pre) \<and> req = request_for cfg w (vs @ stored_values pre)"
proof (induction pre arbitrary: vs)
  case Nil
  then show ?case by simp
next
  case (Cons ev pre)
  show ?case
  proof (cases ev)
    case (Issued k q)
    with Cons.prems have "follows cfg w vs (pre @ Issued s req # post)"
      by simp
    from Cons.IH [OF this] Issued show ?thesis
      by simp
  next
    case (Stored k v)
    with Cons.prems have "follows cfg w (vs @ [v]) (pre @ Issued s req # post)"
      by simp
    from Cons.IH [OF this] Stored show ?thesis
      by simp
  next
    case (Raised k e)
    with Cons.prems have "follows cfg w vs (pre @ Issued s req # post)"
      by simp
    from Cons.IH [OF this] Raised show ?thesis
      by simp
  qed
qed

lemma stored_in_trace:
  assumes "length vs \<le> 5" and "Stored s v \<in> set (trace cfg w vs)"
  shows "map_of (zip stage_names vs) s = Some v"
  using assms
  by (cases vs rule: shape_le5) (auto simp: trace_def stage_names_def)

text \<open>A generation step writes the entry of its own key and no other.\<close>

lemma generate_frame:
  "AList.delete key (outputs (fst (snd (generate cfg create key sp um w wd)))) =
   AList.delete key (outputs w)"
  by (simp add: generate_def Let_def dict_set_def delete_update_same
      split: prod.splits sum.splits)

lemma phase_frame:
  "AList.delete ''theme'' (outputs (fst (snd (phase_theme cfg create w wd)))) =
     AList.delete ''theme'' (outputs w)"
  "AList.delete ''speakers'' (outputs (fst (snd (phase_speakers cfg create w wd)))) =
     AList.delete ''speakers'' (outputs w)"
  "AList.delete ''schedule'' (outputs (fst (snd (phase_schedule cfg create w wd)))) =
     AList.delete ''schedule'' (outputs w)"
  "AList.delete ''logistics'' (outputs (fst (snd (phase_logistics cfg create w wd)))) =
     AList.delete ''logistics'' (outputs w)"
  "AList.delete ''marketing'' (outputs (fst (snd (phase_marketing cfg create w wd)))) =
     AList.delete ''marketing'' (outputs w)"
  by (simp_all add: phase_theme_def phase_speakers_def phase_schedule_def
      phase_logistics_def phase_marketing_def generate_frame Let_def split: sum.splits)

text \<open>
  Claim C6. In every run started on a fresh workflow: each request issued is the request
  of the next stage of the pipeline, built from the parameters and from the values stored
  before it and nothing else; each stage name is stored at most once; every value stored
  during the run is the value found under its stage name when the run ends; and each
  phase, run on any workflow, leaves the entries of all other stage names as they were.
\<close>

theorem prompts_use_earlier_outputs_and_stores_are_final:
  assumes run: "run cfg create w wd = (r, w', wd')"
    and fresh: "outputs w = []" "history wd = []"
  shows "(\<forall>pre s req post. history wd' = pre @ Issued s req # post \<longrightarrow>
       s = next_key (stored_values pre) \<and> req = request_for cfg w (stored_values pre)) \<and>
    distinct (stored (history wd')) \<and>
    (\<forall>s v. Stored s v \<in> set (history wd') \<longrightarrow> map_of (outputs w') s = Some v) \<and>
    AList.delete ''theme'' (outputs (fst (snd (phase_theme cfg create w0 wd0)))) =
      AList.delete ''theme'' (outputs w0) \<and>
    AList.delete ''speakers'' (outputs (fst (snd (phase_speakers cfg create w0 wd0)))) =
      AList.delete ''speakers'' (outputs w0) \<and>
    AList.delete ''schedule'' (outputs (fst (snd (phase_schedule cfg create w0 wd0)))) =
      AList.delete ''schedule'' (outputs w0) \<and>
    AList.delete ''logistics'' (outputs (fst (snd (phase_logistics cfg create w0 wd0)))) =
      AList.delete ''logistics'' (outputs w0) \<and>
    AList.delete ''marketing'' (outputs (fst (snd (phase_marketing cfg create w0 wd0)))) =
      AList.delete ''marketing'' (outputs w0)"
proof -
  obtain vs tl where h: "history wd' = trace cfg w vs @ tl" "length vs \<le> 5"
    "outputs w' = zip stage_names vs" "follows cfg w vs tl" "\<forall>s v. Stored s v \<notin> set tl"
    "stored tl = []"
    using run fresh(1)
  proof (cases rule: run_cases)
    case (failed vs e)
    with fresh(2) show ?thesis
      by (intro that [of vs "[Issued (next_key vs) (request_for cfg w vs),
        Raised (next_key vs) e]"]) simp_all
  next
    case (summary a b c d e)
    have "history wd' = history (snd (r, wd'))"
      by simp
    also have "\<dots> = trace cfg w [a, b, c, d, e]"
      unfolding summary(3) by (simp add: print_summary_history fresh)
    finally show ?thesis
      using summary by (intro that [of "[a, b, c, d, e]" "[]"]) simp_all
  qed
  have "follows cfg w [] (history wd')"
    using h(1,4) follows_trace_from [of cfg w "[]" vs tl] by (simp add: trace_def)
  then have "\<forall>pre s req post. history wd' = pre @ Issued s req # post \<longrightarrow>
       s = next_key (stored_values pre) \<and> req = request_for cfg w (stored_values pre)"
    using follows_split [of cfg w "[]"] by fastforce
  moreover have "\<forall>s v. Stored s v \<in> set (history wd') \<longrightarrow> map_of (outputs w') s = Some v"
    using h stored_in_trace by auto
  moreover have "distinct (stored (history wd'))"
    using h by (simp add: trace_facts distinct_stage_names)
  ultimately show ?thesis
    by (simp only: phase_frame)
qed

text \<open>A complete run, with the service that answers every call with the same text.\<close>

lemma canned_run:
  "outputs (fst (snd (run demo_config canned demo_workflow demo_world))) =
     zip stage_names [''ok'', ''ok'', ''ok'', ''ok'', ''ok'']"
  "history (snd (snd (run demo_config canned demo_workflow demo_world))) =
     trace demo_config demo_workflow [''ok'', ''ok'', ''ok'', ''ok'', ''ok'']"
  by (simp_all add: run_sym canned_def trace_def stage_names_def)


theorem prompts_use_earlier_outputs_and_stores_are_final_witness:
  "issued_request ''marketing''
     (history (snd (snd (run demo_config canned demo_workflow demo_world)))) =
     Some (request_for demo_config demo_workflow
       (stored_values
          (take 8 (history (snd (snd (run demo_config canned demo_workflow demo_world))))))) \<and>
   distinct (stored (history (snd (snd (run demo_config canned demo_workflow demo_world))))) \<and>
   map_of (outputs (fst (snd (run demo_config canned demo_workflow demo_world)))) ''theme'' =
     Some ''ok'' \<and>
   AList.delete ''theme''
       (outputs (fst (snd (phase_theme demo_config canned planned_workflow demo_world)))) =
     AList.delete ''theme'' (outputs planned_workflow) \<and>
   AList.delete ''speakers''
       (outputs (fst (snd (phase_speakers demo_config canned planned_workflow demo_world)))) =
     AList.delete ''speakers'' (outputs planned_workflow) \<and>
   AList.delete ''schedule''
       (outputs (fst (snd (phase_schedule demo_config canned planned_workflow demo_world)))) =
     AList.delete ''schedule'' (outputs planned_workflow) \<and>
   AList.delete ''logistics''
       (outputs (fst (snd (phase_logistics demo_config canned planned_workflow demo_world)))) =
     AList.delete ''logistics'' (outputs planned_workflow) \<and>
   AList.delete ''marketing''
       (outputs (fst (snd (phase_marketing demo_config canned planned_workflow demo_world)))) =
     AList.delete ''marketing'' (outputs planned_workflow)"
proof -
  let ?R = "run demo_config canned demo_workflow demo_world"
  have r: "?R = (fst ?R, fst (snd ?R), snd (snd ?R))"
    by simp
  have f: "outputs demo_workflow = []" "history demo_world = []"
    by (simp_all add: demo_world_def)
  note T = prompts_use_earlier_outputs_and_stores_are_final
    [OF r f, of planned_workflow demo_world]
  obtain req where q: "issued_request ''marketing'' (history (snd (snd ?R))) = Some req"
    and h: "history (snd (snd ?R)) =
      take 8 (history (snd (snd ?R))) @ Issued ''marketing'' req # [Stored ''marketing'' ''ok'']"
    by (simp add: canned_run trace_def)
  from T h have "req = request_for demo_config demo_workflow
      (stored_values (take 8 (history (snd (snd ?R)))))"
    by blast
  moreover have "Stored ''theme'' ''ok'' \<in> set (history (snd (snd ?R)))"
    by (simp add: canned_run trace_def)
  with T have "map_of (outputs (fst (snd ?R))) ''theme'' = Some ''ok''"
    by blast
  ultimately show ?thesis
    using T q by simp
qed

section \<open>The conference workflow: the summary\<close>

lemma write_sections_acc:
  "write_sections d secs acc =
     (fst (write_sections d secs []), acc @ snd (write_sections d secs []))"
proof (induction secs arbitrary: acc)
  case Nil
  show ?case by simp
next
  case (Cons sec secs)
  obtain title key where sec: "sec = (title, key)"
    by (cases sec)
  define x where "x = nl @ rule80 (CHR ''-'') @ nl @ title @ nl @ rule80 (CHR ''-'') @ nl"
  show ?case
  proof (cases "dict_get d key")
    case (Inl e)
    then show ?thesis
      by (simp add: sec Let_def)
  next
    case (Inr v)
    have step: "write_sections d (sec # secs) a = write_sections d secs (a @ x @ v @ nl)" for a
      by (simp add: sec Inr Let_def x_def)
    have "write_sections d secs (acc @ x @ v @ nl) =
        (fst (write_sections d secs []), (acc @ x @ v @ nl) @ snd (write_sections d secs []))"
      by (rule Cons.IH)
    moreover have "write_sections d secs ([] @ x @ v @ nl) =
        (fst (write_sections d secs []), ([] @ x @ v @ nl) @ snd (write_sections d secs []))"
      by (rule Cons.IH)
    ultimately show ?thesis
      by (simp add: step)
  qed
qed

lemma length_strftime_long [simp]: "length (strftime_long t) = 19"
  by (simp add: strftime_long_def d2_def d4_def)

lemma document_eq_iff:
  "snd (document w t) = snd (document w t') \<longleftrightarrow> strftime_long t = strftime_long t'"
proof -
  have "document w g =
      (fst (write_sections (outputs w) sections []),
       header w g @ snd (write_sections (outputs w) sections []))" for g
    unfolding document_def by (rule write_sections_acc)
  then show ?thesis
    by (simp add: header_def)
qed

lemma document_cong:
  assumes "same_params w w2" and "outputs w2 = outputs w"
    and "strftime_long t2 = strftime_long t"
  shows "document w2 t2 = document w t"
  using assms by (simp add: document_def header_def same_params_def)

lemma print_summary_ok:
  assumes "fst (print_summary w wd) = Inr ()"
  shows "snd (print_summary w wd) =
     wd\<lparr>reads := reads wd + 3,
        files := (files wd)(output_file (clock wd (reads wd)) \<mapsto>
                   snd (document w (clock wd (Suc (reads wd)))))\<rparr>"
  using assms unfolding print_summary_def now_def Let_def
  by (simp split: sum.splits prod.splits option.splits if_splits)

text \<open>
  Claim C3, as amended. A summary that succeeds changes the world in two ways and no
  other: it takes three clock readings, and it writes one file, named after the first
  reading, whose text is \<open>document\<close> at the second reading. Two summaries of workflows with
  the same parameters and the same outputs, whose second readings agree to the second,
  write the same text.
\<close>

theorem summary_text_and_effects:
  assumes ok: "fst (print_summary w wd) = Inr ()" "fst (print_summary w2 wd2) = Inr ()"
    and same: "same_params w w2" "outputs w2 = outputs w"
    and time: "strftime_long (clock wd2 (Suc (reads wd2))) =
       strftime_long (clock wd (Suc (reads wd)))"
  shows "snd (print_summary w wd) =
       wd\<lparr>reads := reads wd + 3,
          files := (files wd)(output_file (clock wd (reads wd)) \<mapsto>
                     snd (document w (clock wd (Suc (reads wd)))))\<rparr> \<and>
     files (snd (print_summary w2 wd2)) (output_file (clock wd2 (reads wd2))) =
       files (snd (print_summary w wd)) (output_file (clock wd (reads wd)))"
  using document_cong [OF same time]
  by (simp add: print_summary_ok [OF ok(1)] print_summary_ok [OF ok(2)])

lemma demo_clock_differs: "strftime_long (demo_clock 1) \<noteq> strftime_long (demo_clock 4)"
  by (simp add: strftime_long_def d2_def d4_def digit_def demo_clock_def)

lemma planned_outputs:
  "outputs planned_workflow = zip stage_names [''T'', ''SP'', ''SC'', ''L'', ''M'']"
  by (simp add: planned_workflow_def)

lemma planned_summary:
  "writable wd = (\<lambda>path. True) \<Longrightarrow> fst (print_summary planned_workflow wd) = Inr ()"
  "writable wd = (\<lambda>path. True) \<Longrightarrow> fst (print_summary (planned_workflow\<lparr>client := c\<rparr>) wd) = Inr ()"
  by (simp_all add: print_summary_complete [OF planned_outputs]
      print_summary_complete [of "planned_workflow\<lparr>client := c\<rparr>" "''T''" "''SP''" "''SC''" "''L''" "''M''"]
      planned_outputs)

text \<open>
  Claim C3 as stated fails: a summary writes a file, and the same workflow summarised
  twice in a row, with a clock that advances, gives two files with different texts (the
  line \<open>Generated:\<close> differs).
\<close>

theorem summary_depends_on_clock_and_writes:
  "files (snd (print_summary planned_workflow demo_world)) \<noteq> files demo_world \<and>
   files (snd (print_summary planned_workflow demo_world)) (output_file (demo_clock 0)) =
     Some (snd (document planned_workflow (demo_clock 1))) \<and>
   files (snd (print_summary planned_workflow (snd (print_summary planned_workflow demo_world))))
       (output_file (demo_clock 3)) =
     Some (snd (document planned_workflow (demo_clock 4))) \<and>
   snd (document planned_workflow (demo_clock 1)) \<noteq>
     snd (document planned_workflow (demo_clock 4))"
proof -
  have a: "fst (print_summary planned_workflow demo_world) = Inr ()"
    by (rule planned_summary) (simp add: demo_world_def)
  note s1 = print_summary_ok [OF a]
  have b: "fst (print_summary planned_workflow (snd (print_summary planned_workflow demo_world))) =
      Inr ()"
    by (rule planned_summary) (subst s1, simp add: demo_world_def)
  note s2 = print_summary_ok [OF b]
  have 1: "files (snd (print_summary planned_workflow demo_world)) (output_file (demo_clock 0)) =
     Some (snd (document planned_workflow (demo_clock 1)))"
    by (subst s1) (simp add: demo_world_def)
  have "files demo_world (output_file (demo_clock 0)) = None"
    by (simp add: demo_world_def)
  with 1 have 2: "files (snd (print_summary planned_workflow demo_world)) \<noteq> files demo_world"
    by (metis option.distinct(1))
  have 3: "files (snd (print_summary planned_workflow
        (snd (print_summary planned_workflow demo_world)))) (output_file (demo_clock 3)) =
     Some (snd (document planned_workflow (demo_clock 4)))"
    unfolding s2 unfolding s1 by (simp add: demo_world_def)
  have 4: "snd (document planned_workflow (demo_clock 1)) \<noteq>
      snd (document planned_workflow (demo_clock 4))"
    unfolding document_eq_iff by (rule demo_clock_differs)
  show ?thesis
    using 1 2 3 4 by blast
qed

theorem summary_text_and_effects_witness:
  "snd (print_summary planned_workflow demo_world) =
     demo_world\<lparr>reads := 3,
       files := (files demo_world)(output_file (demo_clock 0) \<mapsto>
                  snd (document planned_workflow (demo_clock 1)))\<rparr> \<and>
   files (snd (print_summary (planned_workflow\<lparr>client := 7\<rparr>) (demo_world\<lparr>reads := 60\<rparr>)))
       (output_file (demo_clock 60)) =
     files (snd (print_summary planned_workflow demo_world)) (output_file (demo_clock 0))"
proof -
  have ok: "fst (print_summary planned_workflow demo_world) = Inr ()"
    "fst (print_summary (planned_workflow\<lparr>client := 7\<rparr>) (demo_world\<lparr>reads := 60\<rparr>)) = Inr ()"
    by (rule planned_summary, simp add: demo_world_def)+
  have p: "same_params planned_workflow (planned_workflow\<lparr>client := 7\<rparr>)"
    "outputs (planned_workflow\<lparr>client := 7\<rparr>) = outputs planned_workflow"
    by (simp_all add: same_params_def)
  have t: "strftime_long (clock (demo_world\<lparr>reads := 60\<rparr>) (Suc (reads (demo_world\<lparr>reads := 60\<rparr>)))) =
      strftime_long (clock demo_world (Suc (reads demo_world)))"
    by (simp add: strftime_long_def demo_clock_def demo_world_def)
  show ?thesis
    using summary_text_and_effects [OF ok p t] by (simp add: demo_world_def)
qed

section \<open>The travel demo: tools and hotel location\<close>

text \<open>
  Claim C8. In every world and for all arguments, each search tool of the travel demo
  returns the world as it found it (no request is sent over the network, no file, no
  environment variable and no clock reading is touched) and returns the research prompt
  below: the fixed template with the string arguments spliced in verbatim, the same text
  in every world.
\<close>

theorem search_tools_return_research_prompts:
  "search_flight_prices destination departure_city wd =
     (nl @
      ''    Research task: Find flights from '' @ departure_city @ '' to '' @ destination @
      ''.'' @ nl @
      nl @
      ''    Please research and provide:'' @ nl @
      ''    1. Current flight options with prices (check Kayak, Skyscanner, Google '' @
      ''Flights)'' @ nl @
      ''    2. Airlines operating these routes'' @ nl @
      ''    3. Flight durations and layover information'' @ nl @
      ''    4. Best booking times and price trends'' @ nl @
      ''    5. Seasonal pricing variations'' @ nl @
      nl @
      ''    Focus on realistic, current pricing for January 2026 travel.'' @ nl @
      ''    '', wd)
   \<and> search_hotel_options location check_in_date wd =
     (nl @
      ''    Research task: Find hotels in '' @ location @ '' for check-in '' @
      check_in_date @ ''.'' @ nl @
      nl @
      ''    Please research and provide:'' @ nl @
      ''    1. Top-rated hotels with guest reviews (check Booking.com, TripAdvisor, '' @
      ''Google Hotels)'' @ nl @
      ''    2. Current pricing for 5-night stays'' @ nl @
      ''    3. Hotel amenities and facilities'' @ nl @
      ''    4. Location details and proximity to attractions'' @ nl @
      ''    5. Guest ratings and recommendation reasons'' @ nl @
      nl @
      ''    Include budget, mid-range, and luxury options.'' @ nl @
      ''    Focus on hotels with high ratings and realistic current prices.'' @ nl @
      ''    '', wd)
   \<and> search_attractions_activities destination wd =
     (nl @
      ''    Research task: Find attractions and activities in '' @ destination @ ''.'' @
      nl @
      nl @
      ''    Please research and provide:'' @ nl @
      ''    1. Top-rated attractions and their estimated visit times'' @ nl @
      ''    2. Popular day tours and multi-day excursions'' @ nl @
      ''    3. Outdoor activities (hiking, water sports, wildlife viewing)'' @ nl @
      ''    4. Cultural sites and local experiences'' @ nl @
      ''    5. Typical costs for tours and entrance fees'' @ nl @
      ''    6. Best time to visit each location'' @ nl @
      ''    7. Transportation options between sites'' @ nl @
      nl @
      ''    Include hidden gems and less-known but highly-rated activities.'' @ nl @
      ''    Focus on realistic itineraries that can be completed in 5 days.'' @ nl @
      ''    '', wd)
   \<and> search_travel_costs destination wd =
     (nl @
      ''    Research task: Find cost information for a trip to '' @ destination @ ''.'' @
      nl @
      nl @
      ''    Please research and provide:'' @ nl @
      ''    1. Average meal costs (budget, mid-range, restaurants)'' @ nl @
      ''    2. Public transportation costs and rental car prices'' @ nl @
      ''    3. Tour and activity pricing'' @ nl @
      ''    4. Entrance fees for attractions'' @ nl @
      ''    5. Estimated daily costs for different budget levels'' @ nl @
      ''    6. Money-saving tips and best budget periods'' @ nl @
      ''    7. Currency exchange rates and payment methods'' @ nl @
      nl @
      ''    Provide realistic, current pricing information for 2025.'' @ nl @
      ''    Focus on actual costs travelers can expect.'' @ nl @
      ''    '', wd)"
  by (simp add: search_flight_prices_def search_hotel_options_def
      search_attractions_activities_def search_travel_costs_def Let_def)

text \<open>
  Claim C10. The hotel location is the destination mapped by the fixed table (lower-cased
  \<open>iceland\<close>, \<open>france\<close>, \<open>japan\<close> to \<open>Reykjavik\<close>, \<open>Paris\<close>, \<open>Tokyo\<close>, anything else
  unchanged), and the goal of the hotel agent and the description and expected output of
  the hotel task are built from that same location.
\<close>

theorem hotel_location_mapping:
  "goal (create_hotel_agent destination trip_dates) =
     ''Suggest top-rated hotels in '' @ hotel_location_spec destination @ '' for the '' @
     destination @ '' trip ('' @ trip_dates @
     ''), considering amenities, location, and value for money. '' @
     ''Use real hotel data from booking sites with current prices and reviews.''
   \<and> description (create_hotel_task hotel_agent destination trip_dates) =
     ''Based on the trip dates ('' @ trip_dates @
     ''), find and recommend the top 3-4 REAL hotels in '' @ hotel_location_spec destination @
     ''. Research actual hotels on Booking.com, TripAdvisor, Google Hotels, and Expedia. '' @
     ''For each hotel, provide the actual name, current guest ratings, real prices per night, '' @
     ''confirmed amenities, and explain why it suits this trip. '' @
     ''Include a mix of budget, mid-range, and luxury options with honest reviews.''
   \<and> expected_output (create_hotel_task hotel_agent destination trip_dates) =
     ''A curated list of 3-4 REAL hotel recommendations in '' @
     hotel_location_spec destination @ '' with actual details '' @
     ''about each hotel, confirmed amenities, real guest ratings, current prices, '' @
     ''and personalized recommendations based on actual guest reviews''"
  by (simp add: create_hotel_agent_def create_hotel_task_def hotel_location_spec_def Let_def)

lemma hotel_location_examples:
  "hotel_location_spec ''Iceland'' = ''Reykjavik''"
  "hotel_location_spec ''FRANCE'' = ''Paris''"
  "hotel_location_spec ''japan'' = ''Tokyo''"
  "hotel_location_spec ''Peru'' = ''Peru''"
  by code_simp+


section \<open>The two scripts: exit codes\<close>











lemma init_demo:
  "init demo_config demo_openai CONFERENCE_NAME CONFERENCE_TYPE DURATION = Inr demo_workflow"
  by (simp add: init_def demo_config_def demo_openai_def demo_workflow_def)






section \<open>The two scripts: command lines\<close>

lemma args_cases:
  fixes xs :: "'a list"
  obtains "xs = []" | a where "xs = [a]" | a b where "xs = [a, b]"
  | a b c where "xs = [a, b, c]" | a b c d where "xs = [a, b, c, d]"
  | a b c d e where "xs = [a, b, c, d, e]"
  | a b c d e f rest where "xs = a # b # c # d # e # f # rest"
proof (cases xs)
  case Nil
  then show ?thesis by (rule that(1))
next
  case c1: (Cons a xs1)
  show ?thesis
  proof (cases xs1)
    case Nil
    with c1 show ?thesis by (intro that(2)) simp
  next
    case c2: (Cons b xs2)
    show ?thesis
    proof (cases xs2)
      case Nil
      with c1 c2 show ?thesis by (intro that(3)) simp
    next
      case c3: (Cons c xs3)
      show ?thesis
      proof (cases xs3)
        case Nil
        with c1 c2 c3 show ?thesis by (intro that(4)) simp
      next
        case c4: (Cons d xs4)
        show ?thesis
        proof (cases xs4)
          case Nil
          with c1 c2 c3 c4 show ?thesis by (intro that(5)) simp
        next
          case c5: (Cons e xs5)
          show ?thesis
          proof (cases xs5)
            case Nil
            with c1 c2 c3 c4 c5 show ?thesis by (intro that(6)) simp
          next
            case c6: (Cons f xs6)
            with c1 c2 c3 c4 c5 show ?thesis by (intro that(7)) simp
          qed
        qed
      qed
    qed
  qed
qed

lemma crewai_script_six:
  "crewai_script cfg kickoff py_int script_dir
     (prog # destination # trip_duration # departure_city # trip_dates # travelers #
      budget_preference # rest) wd =
   (case py_int travelers of
      None \<Rightarrow> (Inl (ValueError travelers), wd)
    | Some n \<Rightarrow>
        main cfg kickoff script_dir destination trip_duration trip_dates departure_city n
          budget_preference wd)"
  by (cases "py_int travelers") (simp_all add: crewai_script_def)

lemma crewai_script_pad:
  assumes "py_int ''2'' = Some 2" and "length args < 6"
  shows "crewai_script cfg kickoff py_int script_dir (prog # args) wd =
     crewai_script cfg kickoff py_int script_dir
       (prog # args @ drop (length args) default_args) wd"
proof (cases args rule: args_cases)
  case (6 a b c d e)
  then show ?thesis
    by (cases "py_int e") (simp_all add: crewai_script_def default_args_def)
qed (use assms in \<open>simp_all add: crewai_script_def default_args_def\<close>)

text \<open>
  Claim C9, as amended. The conference script does not look at its command line: it
  behaves as with no arguments, its parameters being constants of the file. The travel
  script takes its arguments by position, whatever they look like: with none it runs
  \<open>main\<close> on the defaults; with fewer than six it behaves as if the missing ones were the
  defaults (Python's \<open>int\<close> reading \<open>2\<close> as 2); with six or more, the first six are the
  destination, the duration, the departure city, the dates, the travelers and the budget
  preference, the rest is ignored, and a travelers argument that is no integer raises
  \<open>ValueError\<close> before anything is done.
\<close>

theorem command_lines:
  "autogen_script installed acfg openai create argv wd =
     autogen_script installed acfg openai create [] wd \<and>
   crewai_script cfg kickoff py_int script_dir [prog] wd' =
     main cfg kickoff script_dir ''Iceland'' ''5 days'' ''January 15-20, 2026'' ''New York'' 2
       ''mid-range'' wd' \<and>
   (py_int ''2'' = Some 2 \<and> length args < 6 \<longrightarrow>
      crewai_script cfg kickoff py_int script_dir (prog # args) wd' =
      crewai_script cfg kickoff py_int script_dir
        (prog # args @ drop (length args) default_args) wd') \<and>
   crewai_script cfg kickoff py_int script_dir
       (prog # destination # trip_duration # departure_city # trip_dates # travelers #
        budget_preference # rest) wd' =
     (case py_int travelers of
        None \<Rightarrow> (Inl (ValueError travelers), wd')
      | Some n \<Rightarrow>
          main cfg kickoff script_dir destination trip_duration trip_dates departure_city n
            budget_preference wd')"
proof -
  have "autogen_script installed acfg openai create argv wd =
     autogen_script installed acfg openai create [] wd"
    by (simp add: autogen_script_def)
  moreover have "crewai_script cfg kickoff py_int script_dir [prog] wd' =
     main cfg kickoff script_dir ''Iceland'' ''5 days'' ''January 15-20, 2026'' ''New York'' 2
       ''mid-range'' wd'"
    by (simp add: crewai_script_def)
  ultimately show ?thesis
    using crewai_script_pad [of py_int args cfg kickoff script_dir prog wd']
    by (simp only: crewai_script_six) simp
qed


lemma canned_run_ok: "fst (run demo_config canned demo_workflow demo_world) = Inr ()"
  by (simp add: run_sym canned_def)

text \<open>
  Claim C9 as stated fails for the conference script: started with three arguments, it
  does what it does without them, and plans the conference named in the file.
\<close>

theorem conference_script_ignores_arguments:
  "autogen_script True demo_config demo_openai canned
     [''autogen_conference_demo.py'', ''PyCon 2027'', ''web development'', ''2 days'']
     demo_world =
   autogen_script True demo_config demo_openai canned [''autogen_conference_demo.py'']
     demo_world \<and>
   fst (autogen_script True demo_config demo_openai canned
     [''autogen_conference_demo.py'', ''PyCon 2027'', ''web development'', ''2 days'']
     demo_world) = Inr () \<and>
   map_option request_text
     (issued_request ''theme''
        (history (snd (autogen_script True demo_config demo_openai canned
           [''autogen_conference_demo.py'', ''PyCon 2027'', ''web development'', ''2 days'']
           demo_world)))) =
   Some (theme_system_prompt demo_workflow @
     ''Create a compelling theme and vision for '' @ [CHR 0x27] @ ''AI Horizons 2026'' @
     [CHR 0x27] @ '', a 3 days AI/ML technology conference.'')"
proof -
  obtain w' wd' where r: "run demo_config canned demo_workflow demo_world = (Inr (), w', wd')"
    using canned_run_ok by (metis prod.collapse)
  then have h: "history wd' =
      trace demo_config demo_workflow [''ok'', ''ok'', ''ok'', ''ok'', ''ok'']"
    using canned_run(2) by simp
  have a: "autogen_script True demo_config demo_openai canned argv demo_world = (Inr (), wd')"
    for argv
    by (simp add: autogen_script_def init_demo r)
  have "map_option request_text (issued_request ''theme'' (history wd')) =
      Some (theme_system_prompt demo_workflow @ theme_user_message demo_workflow)"
    by (simp add: h trace_def)
  then show ?thesis
    by (simp add: a theme_user_message_def demo_workflow_def CONFERENCE_NAME_def
        CONFERENCE_TYPE_def DURATION_def)
qed

theorem command_lines_witness:
  "crewai_script demo_shared_config plan_a demo_int ''/demo''
     [''crewai_demo.py'', ''France'', ''7 days'', ''Los Angeles''] demo_world =
   main demo_shared_config plan_a ''/demo'' ''France'' ''7 days'' ''January 15-20, 2026''
     ''Los Angeles'' 2 ''mid-range'' demo_world"
  using command_lines [where py_int = demo_int and args = "[''France'', ''7 days'', ''Los Angeles'']"
      and cfg = demo_shared_config and kickoff = plan_a and script_dir = "''/demo''"
      and prog = "''crewai_demo.py''" and wd' = demo_world and destination = "''France''"
      and trip_duration = "''7 days''" and departure_city = "''Los Angeles''"
      and trip_dates = "''January 15-20, 2026''" and travelers = "''2''"
      and budget_preference = "''mid-range''" and rest = "[]" and installed = True
      and acfg = demo_config and openai = demo_openai and create = canned
      and argv = "[''autogen_conference_demo.py'', ''PyCon 2027'']" and wd = demo_world]
  by (simp add: default_args_def demo_int_def)

end
